theory Spec2Isabelle
  imports Main
begin

section \<open>Python values\<close>

text \<open>
  The connector passes dynamically typed Python values through to the server and
  receives such values back.  Floating point numbers are left out: no operation of
  \<^verbatim>\<open>connector.py\<close> computes with them.
\<close>

datatype pyval =
    PNone
  | PBool bool
  | PInt int
  | PStr string
  | PList "pyval list"
  | PTuple "pyval list"
  | PDict "(pyval \<times> pyval) list"

text \<open>Truth value testing, as used by \<^verbatim>\<open>not state\<close>.\<close>

fun truthy :: "pyval \<Rightarrow> bool" where
  "truthy PNone = False"
| "truthy (PBool b) = b"
| "truthy (PInt n) = (n \<noteq> 0)"
| "truthy (PStr s) = (s \<noteq> [])"
| "truthy (PList xs) = (xs \<noteq> [])"
| "truthy (PTuple xs) = (xs \<noteq> [])"
| "truthy (PDict kvs) = (kvs \<noteq> [])"

section \<open>Exceptions\<close>

text \<open>
  The argument an exception of this module is constructed with.  The source passes a
  value as it is (\<open>Val\<close>), the \<^verbatim>\<open>repr\<close> of a value, the
  \<^verbatim>\<open>unicode\<close> text of a caught \<^verbatim>\<open>NetRPCError\<close>, or a format template
  applied to arguments; the conversions to text are kept symbolic.
\<close>

datatype errarg =
    Val pyval
  | ReprOf pyval
  | UnicodeOf pyval
  | Format string "pyval list"

text \<open>
  Exceptions raised by the transports (\<^verbatim>\<open>xmlrpclib\<close>, \<^verbatim>\<open>socket\<close>,
  \<^verbatim>\<open>netrpc\<close>), by the interpreter, and by this module.
  \<^item> \<open>Fault faultCode faultString\<close>, \<open>ProtocolError\<close> and \<open>ResponseError\<close> are
    the three subclasses of \<^verbatim>\<open>xmlrpclib.Error\<close>; only \<open>Fault\<close> has the
    attribute \<^verbatim>\<open>faultCode\<close>.
  \<^item> \<open>SocketError strerror\<close> is \<^verbatim>\<open>socket.error\<close>.
  \<^item> \<open>NetRPCError\<close> is \<^verbatim>\<open>netrpc.NetRPCError\<close>, with its arguments.
  \<^item> \<open>OtherException\<close> stands for any further class derived from
    \<^verbatim>\<open>Exception\<close>, \<open>OtherBaseException\<close> for one derived from
    \<^verbatim>\<open>BaseException\<close> only (\<^verbatim>\<open>KeyboardInterrupt\<close>).
  \<^item> The last five are the classes defined at the end of \<^verbatim>\<open>connector.py\<close>,
    all derived from \<^verbatim>\<open>BaseException\<close>.
\<close>

datatype exc =
    Fault pyval pyval
  | ProtocolError pyval
  | ResponseError
  | SocketError pyval
  | NetRPCError pyval
  | OtherException string
  | OtherBaseException string
  | AttributeError string
  | TypeError string
  | ValueError string
  | KeyError pyval
  | ConnectorError errarg
  | LoginError errarg
  | ExecuteError errarg
  | ExecWorkflowError errarg
  | ExecReportError errarg

text \<open>The \<^verbatim>\<open>except\<close> clauses of the source, as class membership tests.\<close>

fun is_xmlrpclib_Error :: "exc \<Rightarrow> bool" where
  "is_xmlrpclib_Error (Fault c s) = True"
| "is_xmlrpclib_Error (ProtocolError p) = True"
| "is_xmlrpclib_Error ResponseError = True"
| "is_xmlrpclib_Error _ = False"

fun is_NetRPCError :: "exc \<Rightarrow> bool" where
  "is_NetRPCError (NetRPCError a) = True"
| "is_NetRPCError _ = False"

text \<open>
  \<^verbatim>\<open>except Exception\<close>: everything but the classes derived from
  \<^verbatim>\<open>BaseException\<close> directly.  The base class of \<^verbatim>\<open>NetRPCError\<close> is
  declared outside \<^verbatim>\<open>connector.py\<close>; it is counted with this module's own
  classes, and no statement below depends on that choice.
\<close>

fun is_Exception :: "exc \<Rightarrow> bool" where
  "is_Exception (Fault c s) = True"
| "is_Exception (ProtocolError p) = True"
| "is_Exception ResponseError = True"
| "is_Exception (SocketError s) = True"
| "is_Exception (OtherException n) = True"
| "is_Exception (AttributeError n) = True"
| "is_Exception (TypeError n) = True"
| "is_Exception (ValueError n) = True"
| "is_Exception (KeyError k) = True"
| "is_Exception _ = False"

text \<open>The attribute access \<^verbatim>\<open>exc.faultCode\<close> on a caught \<^verbatim>\<open>xmlrpclib.Error\<close>.\<close>

fun faultCode :: "exc \<Rightarrow> exc + pyval" where
  "faultCode (Fault c s) = Inr c"
| "faultCode _ = Inl (AttributeError ''faultCode'')"

text \<open>The subscription \<^verbatim>\<open>pdf_data['state']\<close>: a dictionary lookup, a
  \<^verbatim>\<open>KeyError\<close> on a missing key, a \<^verbatim>\<open>TypeError\<close> on a value that is not
  a dictionary.\<close>

fun getitem :: "pyval \<Rightarrow> pyval \<Rightarrow> exc + pyval" where
  "getitem (PDict kvs) k = (case map_of kvs k of None \<Rightarrow> Inl (KeyError k) | Some v \<Rightarrow> Inr v)"
| "getitem _ k = Inl (TypeError ''__getitem__'')"

section \<open>The built-in \<^verbatim>\<open>int\<close> conversion\<close>

definition is_space :: "char \<Rightarrow> bool" where
  "is_space c = (c \<in> set [CHR '' '', CHR 0x09, CHR 0x0A, CHR 0x0B, CHR 0x0C, CHR 0x0D])"

definition is_digit :: "char \<Rightarrow> bool" where
  "is_digit c = (c \<in> set ''0123456789'')"

definition strip :: "string \<Rightarrow> string" where
  "strip s = rev (dropWhile is_space (rev (dropWhile is_space s)))"

definition digits_value :: "string \<Rightarrow> int" where
  "digits_value ds = foldl (\<lambda>a c. 10 * a + (int (of_char c) - 48)) 0 ds"

text \<open>A decimal literal: optional surrounding whitespace, an optional sign, one or more
  digits.\<close>

definition parse_int :: "string \<Rightarrow> int option" where
  "parse_int s =
     (case strip s of
        [] \<Rightarrow> None
      | c # cs \<Rightarrow>
          (if c = CHR ''-'' \<or> c = CHR ''+'' then
             (if cs \<noteq> [] \<and> list_all is_digit cs
              then Some ((if c = CHR ''-'' then - 1 else 1) * digits_value cs) else None)
           else if list_all is_digit (c # cs) then Some (digits_value (c # cs)) else None))"

text \<open>\<^verbatim>\<open>int(port)\<close>: a \<^verbatim>\<open>ValueError\<close> on a string that is no integer literal, a
  \<^verbatim>\<open>TypeError\<close> on a value that is neither a number nor a string.\<close>

fun py_int :: "pyval \<Rightarrow> exc + int" where
  "py_int (PInt n) = Inr n"
| "py_int (PBool b) = Inr (if b then 1 else 0)"
| "py_int (PStr s) =
     (case parse_int s of None \<Rightarrow> Inl (ValueError ''invalid literal for int()'') | Some n \<Rightarrow> Inr n)"
| "py_int _ = Inl (TypeError ''int() argument must be a string or a number'')"

section \<open>Connectors\<close>

text \<open>
  The two classes \<^verbatim>\<open>_ConnectorXMLRPC\<close> and \<^verbatim>\<open>_ConnectorNetRPC\<close>.  A connector
  object holds \<^verbatim>\<open>server\<close> and \<^verbatim>\<open>port\<close> from its construction and
  \<^verbatim>\<open>database\<close> once \<^verbatim>\<open>login\<close> has assigned it: an attribute that does not
  exist yet is \<open>None\<close>.  The three \<^verbatim>\<open>ServerProxy\<close> handles of the XML-RPC
  variant are determined by server and port; a call through one of them is identified
  by its service path.
\<close>

datatype variant = ConnectorXMLRPC | ConnectorNetRPC

record connector =
  variant_of :: variant
  server :: pyval
  port :: pyval
  database :: "pyval option"

datatype endpoint = Object | Report | Common

section \<open>The outside world\<close>

text \<open>
  What the connector does to the outside is recorded as a trace of events; \<open>ncalls\<close>
  counts the remote calls started so far.
\<close>

datatype event =
    XmlCall endpoint string "pyval list"
  | NetNew
  | NetConnect pyval pyval
  | NetSend "pyval list"
  | NetReceive
  | NetDisconnect
  | Sleep int

record world =
  ncalls :: nat
  trace :: "event list"

definition log_events :: "event list \<Rightarrow> world \<Rightarrow> world" where
  "log_events es w = w\<lparr>trace := trace w @ es\<rparr>"

text \<open>\<^verbatim>\<open>time.sleep(n)\<close>\<close>

definition sleep :: "int \<Rightarrow> world \<Rightarrow> world" where
  "sleep n w = log_events [Sleep n] w"

text \<open>
  The transports are parameters.  An XML-RPC transport answers the remote call number
  \<open>i\<close> on a service path, with a method name and arguments, by a value or by raising.
\<close>

type_synonym xml_transport = "nat \<Rightarrow> endpoint \<Rightarrow> string \<Rightarrow> pyval list \<Rightarrow> exc + pyval"

definition xml_call ::
  "xml_transport \<Rightarrow> endpoint \<Rightarrow> string \<Rightarrow> pyval list \<Rightarrow> world \<Rightarrow> (exc + pyval) \<times> world" where
  "xml_call T ep m as w =
     (T (ncalls w) ep m as,
      w\<lparr>ncalls := Suc (ncalls w), trace := trace w @ [XmlCall ep m as]\<rparr>)"

text \<open>
  A NetRPC transport (\<^verbatim>\<open>netrpc.NetRPC\<close>) answers the remote call number \<open>i\<close>, for
  the tuple to be sent, by saying which of its five steps raises, or what
  \<^verbatim>\<open>receive\<close> returns when none does.
\<close>

datatype net_outcome =
    NewRaises exc
  | ConnectRaises exc
  | SendRaises exc
  | ReceiveRaises exc
  | DisconnectRaises exc
  | Reply pyval

type_synonym net_transport = "nat \<Rightarrow> pyval list \<Rightarrow> net_outcome"

section \<open>Construction\<close>

text \<open>
  \<^verbatim>\<open>_Connector.__init__\<close>, for the class \<open>v\<close> being instantiated: only a
  \<^verbatim>\<open>ValueError\<close> of \<^verbatim>\<open>int(port)\<close> is caught; the port is stored as given.
\<close>

definition Connector_init :: "variant \<Rightarrow> pyval \<Rightarrow> pyval \<Rightarrow> exc + connector" where
  "Connector_init v srv prt =
     (case py_int prt of
        Inl e \<Rightarrow>
          (case e of
             ValueError m \<Rightarrow>
               Inl (ConnectorError
                 (Format ''The port '{0}' is invalid. An integer is required.'' [prt]))
           | _ \<Rightarrow> Inl e)
      | Inr n \<Rightarrow> Inr \<lparr>variant_of = v, server = srv, port = prt, database = None\<rparr>)"

text \<open>\<^verbatim>\<open>_ConnectorXMLRPC.__init__\<close>: the base constructor, then the URL and the three
  proxies, which are built without any input or output.\<close>

definition ConnectorXMLRPC_init :: "pyval \<Rightarrow> pyval \<Rightarrow> exc + connector" where
  "ConnectorXMLRPC_init srv prt = Connector_init ConnectorXMLRPC srv prt"

text \<open>\<^verbatim>\<open>_ConnectorNetRPC.__init__\<close>\<close>

definition ConnectorNetRPC_init :: "pyval \<Rightarrow> pyval \<Rightarrow> exc + connector" where
  "ConnectorNetRPC_init srv prt = Connector_init ConnectorNetRPC srv prt"

text \<open>The dictionary \<^verbatim>\<open>connectors\<close> of \<^verbatim>\<open>get_connector\<close>, in the order it is
  written (the order in which \<^verbatim>\<open>keys()\<close> lists it is the interpreter's).  The
  protocol is passed explicitly; a call that leaves it out is the call with
  \<^verbatim>\<open>'xmlrpc'\<close>.\<close>

definition connectors :: "(string \<times> variant) list" where
  "connectors = [(''xmlrpc'', ConnectorXMLRPC), (''netrpc'', ConnectorNetRPC)]"

definition construct :: "variant \<Rightarrow> pyval \<Rightarrow> pyval \<Rightarrow> exc + connector" where
  "construct v srv prt =
     (case v of
        ConnectorXMLRPC \<Rightarrow> ConnectorXMLRPC_init srv prt
      | ConnectorNetRPC \<Rightarrow> ConnectorNetRPC_init srv prt)"

definition get_connector :: "pyval \<Rightarrow> pyval \<Rightarrow> string \<Rightarrow> exc + connector" where
  "get_connector srv prt protocol =
     (case map_of connectors protocol of
        None \<Rightarrow>
          Inl (ConnectorError
            (Format
              (''The protocol '{0}' is not supported. '' @
               ''Please choose a protocol among these ones: {1}'')
              [PStr protocol, PList (map (\<lambda>kv. PStr (fst kv)) connectors)]))
      | Some v \<Rightarrow> construct v srv prt)"

section \<open>The XML-RPC variant\<close>

definition XMLRPC_login ::
  "xml_transport \<Rightarrow> connector \<Rightarrow> pyval \<Rightarrow> pyval \<Rightarrow> pyval \<Rightarrow> world
     \<Rightarrow> (exc + pyval) \<times> connector \<times> world" where
  "XMLRPC_login T c db user passwd w =
     (let c' = c\<lparr>database := Some db\<rparr> in
      case xml_call T Common ''login'' [db, user, passwd] w of
        (Inl e, w') \<Rightarrow>
          (case e of
             Fault code str \<Rightarrow> (Inl (LoginError (ReprOf code)), c', w')
           | SocketError strerror \<Rightarrow> (Inl (LoginError (Val strerror)), c', w')
           | _ \<Rightarrow> (Inl e, c', w'))
      | (Inr user_id, w') \<Rightarrow> (Inr user_id, c', w'))"

definition XMLRPC_execute ::
  "xml_transport \<Rightarrow> connector \<Rightarrow> pyval \<Rightarrow> pyval \<Rightarrow> pyval \<Rightarrow> pyval \<Rightarrow> pyval list \<Rightarrow> world
     \<Rightarrow> (exc + pyval) \<times> world" where
  "XMLRPC_execute T c uid upasswd osv_name method args w =
     (case database c of
        None \<Rightarrow> (Inl (AttributeError ''database''), w)
      | Some db \<Rightarrow>
          (case xml_call T Object ''execute'' (db # uid # upasswd # osv_name # method # args) w of
             (Inr res, w') \<Rightarrow> (Inr res, w')
           | (Inl e, w') \<Rightarrow>
               (case e of
                  SocketError strerror \<Rightarrow> (Inl (ExecuteError (Val strerror)), w')
                | Fault code str \<Rightarrow> (Inl (ExecuteError (Val code)), w')
                | ProtocolError p \<Rightarrow> (Inl (AttributeError ''faultCode''), w')
                | ResponseError \<Rightarrow> (Inl (AttributeError ''faultCode''), w')
                | _ \<Rightarrow> (Inl e, w'))))"

text \<open>The whole call, the read of \<^verbatim>\<open>self.database\<close> included, stands inside
  \<^verbatim>\<open>try\<close>, and the handler is \<^verbatim>\<open>except Exception\<close>.\<close>

definition XMLRPC_exec_workflow ::
  "xml_transport \<Rightarrow> connector \<Rightarrow> pyval \<Rightarrow> pyval \<Rightarrow> pyval \<Rightarrow> pyval \<Rightarrow> pyval \<Rightarrow> world
     \<Rightarrow> (exc + pyval) \<times> world" where
  "XMLRPC_exec_workflow T c uid upasswd osv_name signal obj_id w =
     (case (case database c of
              None \<Rightarrow> (Inl (AttributeError ''database''), w)
            | Some db \<Rightarrow>
                xml_call T Object ''exec_workflow'' [db, uid, upasswd, osv_name, signal, obj_id] w) of
        (Inr res, w') \<Rightarrow> (Inr res, w')
      | (Inl e, w') \<Rightarrow>
          (if is_Exception e
           then (Inl (ExecWorkflowError (Val (PStr ''Workflow query has failed.''))), w')
           else (Inl e, w')))"

section \<open>The polling loop of \<^verbatim>\<open>report\<close>\<close>

text \<open>
  Both variants run the same loop
  \<^verbatim>\<open>
    state = False; attempt = 0
    while not state:
        try: pdf_data = <status request>
        except <transport error class>: raise ExecReportError("Unknown error ...")
        state = pdf_data['state']
        if not state:
            time.sleep(1); attempt += 1
        if attempt > 200:
            raise ExecReportError("Download time exceeded, ...")
    return pdf_data
  \<close>
  over their own status request \<open>get\<close> and their own handled class \<open>caught\<close>.
  \<open>report_loop get caught attempt w\<close> is the loop entered with the counter at
  \<open>attempt\<close> and \<open>state\<close> falsy.
\<close>

definition download_failed :: exc where
  "download_failed =
     ExecReportError (Val (PStr
       (''Unknown error occurred during the '' @ ''download of the report.'')))"

definition download_timeout :: exc where
  "download_timeout =
     ExecReportError (Val (PStr
       (''Download time exceeded, '' @ ''the operation has been canceled.'')))"

function report_loop ::
  "(world \<Rightarrow> (exc + pyval) \<times> world) \<Rightarrow> (exc \<Rightarrow> bool) \<Rightarrow> int \<Rightarrow> world
     \<Rightarrow> (exc + pyval) \<times> world" where
  "report_loop get caught attempt w =
     (case get w of
        (Inl e, w1) \<Rightarrow> (if caught e then (Inl download_failed, w1) else (Inl e, w1))
      | (Inr pdf_data, w1) \<Rightarrow>
          (case getitem pdf_data (PStr ''state'') of
             Inl e \<Rightarrow> (Inl e, w1)
           | Inr state \<Rightarrow>
               (if \<not> truthy state then
                  (if attempt + 1 > 200 then (Inl download_timeout, sleep 1 w1)
                   else report_loop get caught (attempt + 1) (sleep 1 w1))
                else
                  (if attempt > 200 then (Inl download_timeout, w1)
                   else (Inr pdf_data, w1)))))"
  by pat_completeness auto
termination
  by (relation "measure (\<lambda>(get, caught, attempt, w). nat (201 - attempt))") auto

declare report_loop.simps [simp del]

definition report_context :: "pyval \<Rightarrow> pyval" where
  "report_context context = (if context = PNone then PDict [] else context)"

definition report_data :: "pyval \<Rightarrow> pyval \<Rightarrow> pyval \<Rightarrow> pyval" where
  "report_data osv_name obj_id report_type =
     PDict [(PStr ''model'', osv_name), (PStr ''id'', obj_id), (PStr ''report_type'', report_type)]"

definition XMLRPC_report ::
  "xml_transport \<Rightarrow> connector \<Rightarrow> pyval \<Rightarrow> pyval \<Rightarrow> pyval \<Rightarrow> pyval \<Rightarrow> pyval \<Rightarrow> pyval \<Rightarrow> pyval
     \<Rightarrow> world \<Rightarrow> (exc + pyval) \<times> world" where
  "XMLRPC_report T c uid upasswd report_name osv_name obj_id report_type context w =
     (case database c of
        None \<Rightarrow> (Inl (AttributeError ''database''), w)
      | Some db \<Rightarrow>
          (case xml_call T Report ''report''
                  [db, uid, upasswd, report_name, PList [obj_id],
                   report_data osv_name obj_id report_type, report_context context] w of
             (Inl e, w') \<Rightarrow>
               (if is_xmlrpclib_Error e then
                  (case faultCode e of
                     Inl e' \<Rightarrow> (Inl e', w')
                   | Inr code \<Rightarrow> (Inl (ExecReportError (Val code)), w'))
                else (Inl e, w'))
           | (Inr report_id, w') \<Rightarrow>
               report_loop
                 (xml_call T Report ''report_get'' [db, uid, upasswd, report_id])
                 is_xmlrpclib_Error 0 w'))"

section \<open>The NetRPC variant\<close>

text \<open>
  \<^verbatim>\<open>_request\<close>: a new \<^verbatim>\<open>NetRPC\<close> object, \<^verbatim>\<open>connect\<close>, \<^verbatim>\<open>send\<close>,
  \<^verbatim>\<open>receive\<close>, \<^verbatim>\<open>disconnect\<close>, with no handler: a step that raises ends the
  request there.  The trace holds every step that was started.  The new object is kept
  in the attribute \<^verbatim>\<open>sock\<close>, which nothing but \<^verbatim>\<open>_request\<close> itself reads, so
  the connector record does not hold it.
\<close>

definition NetRPC_request ::
  "net_transport \<Rightarrow> connector \<Rightarrow> string \<Rightarrow> string \<Rightarrow> pyval list \<Rightarrow> world
     \<Rightarrow> (exc + pyval) \<times> world" where
  "NetRPC_request T c service method args w =
     (let msg = PStr service # PStr method # args;
          w0 = w\<lparr>ncalls := Suc (ncalls w)\<rparr>;
          new = [NetNew];
          conn = new @ [NetConnect (server c) (port c)];
          sent = conn @ [NetSend msg];
          recv = sent @ [NetReceive];
          disc = recv @ [NetDisconnect]
      in case T (ncalls w) msg of
           NewRaises e \<Rightarrow> (Inl e, log_events new w0)
         | ConnectRaises e \<Rightarrow> (Inl e, log_events conn w0)
         | SendRaises e \<Rightarrow> (Inl e, log_events sent w0)
         | ReceiveRaises e \<Rightarrow> (Inl e, log_events recv w0)
         | DisconnectRaises e \<Rightarrow> (Inl e, log_events disc w0)
         | Reply result \<Rightarrow> (Inr result, log_events disc w0))"

definition NetRPC_login ::
  "net_transport \<Rightarrow> connector \<Rightarrow> pyval \<Rightarrow> pyval \<Rightarrow> pyval \<Rightarrow> world
     \<Rightarrow> (exc + pyval) \<times> connector \<times> world" where
  "NetRPC_login T c db user passwd w =
     (let c' = c\<lparr>database := Some db\<rparr> in
      case NetRPC_request T c' ''common'' ''login'' [db, user, passwd] w of
        (Inl e, w') \<Rightarrow>
          (case e of
             NetRPCError a \<Rightarrow> (Inl (LoginError (UnicodeOf a)), c', w')
           | _ \<Rightarrow> (Inl e, c', w'))
      | (Inr user_id, w') \<Rightarrow> (Inr user_id, c', w'))"

definition NetRPC_execute ::
  "net_transport \<Rightarrow> connector \<Rightarrow> pyval \<Rightarrow> pyval \<Rightarrow> pyval \<Rightarrow> pyval \<Rightarrow> pyval list \<Rightarrow> world
     \<Rightarrow> (exc + pyval) \<times> world" where
  "NetRPC_execute T c uid upasswd osv_name method args w =
     (case database c of
        None \<Rightarrow> (Inl (AttributeError ''database''), w)
      | Some db \<Rightarrow>
          (case NetRPC_request T c ''object'' ''execute''
                  (db # uid # upasswd # osv_name # method # args) w of
             (Inr res, w') \<Rightarrow> (Inr res, w')
           | (Inl e, w') \<Rightarrow>
               (case e of
                  NetRPCError a \<Rightarrow> (Inl (ExecuteError (UnicodeOf a)), w')
                | _ \<Rightarrow> (Inl e, w'))))"

definition NetRPC_exec_workflow ::
  "net_transport \<Rightarrow> connector \<Rightarrow> pyval \<Rightarrow> pyval \<Rightarrow> pyval \<Rightarrow> pyval \<Rightarrow> pyval \<Rightarrow> world
     \<Rightarrow> (exc + pyval) \<times> world" where
  "NetRPC_exec_workflow T c uid upasswd osv_name signal obj_id w =
     (case database c of
        None \<Rightarrow> (Inl (AttributeError ''database''), w)
      | Some db \<Rightarrow>
          (case NetRPC_request T c ''object'' ''exec_workflow''
                  [db, uid, upasswd, osv_name, signal, obj_id] w of
             (Inr res, w') \<Rightarrow> (Inr res, w')
           | (Inl e, w') \<Rightarrow>
               (if is_NetRPCError e
                then (Inl (ExecWorkflowError (Val (PStr ''Workflow query has failed.''))), w')
                else (Inl e, w'))))"

definition NetRPC_report ::
  "net_transport \<Rightarrow> connector \<Rightarrow> pyval \<Rightarrow> pyval \<Rightarrow> pyval \<Rightarrow> pyval \<Rightarrow> pyval \<Rightarrow> pyval \<Rightarrow> pyval
     \<Rightarrow> world \<Rightarrow> (exc + pyval) \<times> world" where
  "NetRPC_report T c uid upasswd report_name osv_name obj_id report_type context w =
     (case database c of
        None \<Rightarrow> (Inl (AttributeError ''database''), w)
      | Some db \<Rightarrow>
          (case NetRPC_request T c ''report'' ''report''
                  [db, uid, upasswd, report_name, PList [obj_id],
                   report_data osv_name obj_id report_type, report_context context] w of
             (Inl e, w') \<Rightarrow>
               (case e of
                  NetRPCError a \<Rightarrow> (Inl (ExecReportError (UnicodeOf a)), w')
                | _ \<Rightarrow> (Inl e, w'))
           | (Inr report_id, w') \<Rightarrow>
               report_loop
                 (NetRPC_request T c ''report'' ''report_get'' [db, uid, upasswd, report_id])
                 is_NetRPCError 0 w'))"

section \<open>Vocabulary of the statements\<close>

text \<open>A status payload whose \<^verbatim>\<open>'state'\<close> entry exists and is falsy, or truthy.\<close>

definition state_falsy :: "pyval \<Rightarrow> bool" where
  "state_falsy p = (case getitem p (PStr ''state'') of Inl e \<Rightarrow> False | Inr s \<Rightarrow> \<not> truthy s)"

definition state_truthy :: "pyval \<Rightarrow> bool" where
  "state_truthy p = (case getitem p (PStr ''state'') of Inl e \<Rightarrow> False | Inr s \<Rightarrow> truthy s)"

text \<open>The events of one complete NetRPC request.\<close>

definition net_cycle :: "connector \<Rightarrow> string \<Rightarrow> string \<Rightarrow> pyval list \<Rightarrow> event list" where
  "net_cycle c service method args =
     [NetNew, NetConnect (server c) (port c),
      NetSend (PStr service # PStr method # args), NetReceive, NetDisconnect]"

section \<open>Test doubles\<close>

text \<open>Transports that answer the remote calls from a script, call by call.\<close>

definition xml_script :: "(exc + pyval) list \<Rightarrow> xml_transport" where
  "xml_script rs i ep m as = (if i < length rs then rs ! i else Inr PNone)"

definition net_script :: "net_outcome list \<Rightarrow> net_transport" where
  "net_script rs i msg = (if i < length rs then rs ! i else Reply PNone)"

definition pending :: pyval where
  "pending = PDict [(PStr ''state'', PBool False)]"

definition ready :: pyval where
  "ready = PDict [(PStr ''state'', PBool True), (PStr ''result'', PStr ''JVBERi0xLjQK''),
                  (PStr ''format'', PStr ''pdf'')]"

definition fresh :: "variant \<Rightarrow> connector" where
  "fresh v = \<lparr>variant_of = v, server = PStr ''localhost'', port = PInt 8069, database = None\<rparr>"

definition logged_in :: "variant \<Rightarrow> connector" where
  "logged_in v = (fresh v)\<lparr>database := Some (PStr ''db'')\<rparr>"

definition world0 :: world where
  "world0 = \<lparr>ncalls = 0, trace = []\<rparr>"

text \<open>A server that accepts the report request with the job identifier \<open>rid\<close>,
  answers the first \<open>N\<close> status requests with a pending payload and every later one
  with a finished payload.\<close>

definition xml_polls :: "pyval \<Rightarrow> nat \<Rightarrow> xml_transport" where
  "xml_polls rid N i ep m as =
     (if i = 0 then Inr rid else if i \<le> N then Inr pending else Inr ready)"

definition net_polls :: "pyval \<Rightarrow> nat \<Rightarrow> net_transport" where
  "net_polls rid N i msg =
     (if i = 0 then Reply rid else if i \<le> N then Reply pending else Reply ready)"

section \<open>The polling loop\<close>

lemma report_loop_raise:
  "get w = (Inl e, w1) \<Longrightarrow>
   report_loop get caught a w = (Inl (if caught e then download_failed else e), w1)"
  by (subst report_loop.simps) simp

lemma report_loop_pending:
  "get w = (Inr p, w1) \<Longrightarrow> state_falsy p \<Longrightarrow>
   report_loop get caught a w =
     (if a + 1 > 200 then (Inl download_timeout, sleep 1 w1)
      else report_loop get caught (a + 1) (sleep 1 w1))"
  by (subst report_loop.simps) (auto simp: state_falsy_def split: sum.splits)

lemma report_loop_ready:
  "get w = (Inr p, w1) \<Longrightarrow> state_truthy p \<Longrightarrow> a \<le> 200 \<Longrightarrow>
   report_loop get caught a w = (Inr p, w1)"
  by (subst report_loop.simps) (auto simp: state_truthy_def split: sum.splits)

lemma report_loop_returns_truthy:
  "report_loop get caught a w = (Inr p, w') \<Longrightarrow> state_truthy p"
proof (induction get caught a w rule: report_loop.induct)
  case (1 get caught attempt w)
  show ?case
  proof (cases "get w")
    case (Pair r w1)
    show ?thesis
    proof (cases r)
      case (Inl e)
      with Pair "1.prems" show ?thesis
        by (simp add: report_loop_raise split: if_splits)
    next
      case (Inr pdf_data)
      show ?thesis
      proof (cases "getitem pdf_data (PStr ''state'')")
        case (Inl e)
        with Pair Inr "1.prems" show ?thesis
          by (subst (asm) report_loop.simps) simp
      next
        case st: (Inr state)
        show ?thesis
        proof (cases "truthy state")
          case True
          with Pair Inr st "1.prems" show ?thesis
            by (subst (asm) report_loop.simps) (auto simp: state_truthy_def split: if_splits)
        next
          case False
          with Pair Inr st "1.prems" "1.IH" show ?thesis
            by (subst (asm) report_loop.simps) (auto split: if_splits)
        qed
      qed
    qed
  qed
qed


lemma report_loop_ready_after:
  assumes bound: "a + int n \<le> 200"
    and polls: "\<And>i w. i \<le> n \<Longrightarrow> ncalls w = k + i \<Longrightarrow>
                  get w = (Inr (P i), w\<lparr>ncalls := Suc (ncalls w), trace := trace w @ evs\<rparr>)"
    and falsy: "\<And>i. i < n \<Longrightarrow> state_falsy (P i)"
    and truthy: "state_truthy (P n)"
    and start: "ncalls w = k"
  shows "report_loop get caught a w =
           (Inr (P n), w\<lparr>ncalls := k + n + 1,
                          trace := trace w @ concat (replicate n (evs @ [Sleep 1])) @ evs\<rparr>)"
  using assms
proof (induction n arbitrary: a w k P)
  case 0
  have "get w = (Inr (P 0), w\<lparr>ncalls := Suc (ncalls w), trace := trace w @ evs\<rparr>)"
    using "0.prems"(2) [of 0 w] "0.prems"(5) by simp
  from report_loop_ready [where get = get and w = w, OF this "0.prems"(4)] "0.prems"(1,5)
  show ?case by simp
next
  case (Suc n)
  let ?w1 = "w\<lparr>ncalls := Suc (ncalls w), trace := trace w @ evs\<rparr>"
  have "get w = (Inr (P 0), ?w1)"
    using Suc.prems(2) [of 0 w] Suc.prems(5) by simp
  from report_loop_pending [where get = get and w = w, OF this Suc.prems(3) [of 0]] Suc.prems(1)
  have step: "report_loop get caught a w = report_loop get caught (a + 1) (sleep 1 ?w1)"
    by simp
  have rest: "report_loop get caught (a + 1) (sleep 1 ?w1) =
        (Inr (P (Suc n)), (sleep 1 ?w1)\<lparr>ncalls := Suc k + n + 1,
            trace := trace (sleep 1 ?w1) @ concat (replicate n (evs @ [Sleep 1])) @ evs\<rparr>)"
  proof (rule Suc.IH [where P = "\<lambda>i. P (Suc i)" and k = "Suc k"])
    show "a + 1 + int n \<le> 200" using Suc.prems(1) by simp
    show "get w' = (Inr (P (Suc i)), w'\<lparr>ncalls := Suc (ncalls w'), trace := trace w' @ evs\<rparr>)"
      if "i \<le> n" "ncalls w' = Suc k + i" for i w'
      using Suc.prems(2) [of "Suc i" w'] that by simp
    show "state_falsy (P (Suc i))" if "i < n" for i
      using Suc.prems(3) [of "Suc i"] that by simp
    show "state_truthy (P (Suc n))" by (rule Suc.prems(4))
    show "ncalls (sleep 1 ?w1) = Suc k"
      using Suc.prems(5) by (simp add: sleep_def log_events_def)
  qed
  show ?case
    unfolding step rest by (simp add: sleep_def log_events_def)
qed

lemma report_loop_timeout_after:
  assumes bound: "a + int n = 200"
    and polls: "\<And>i w. i \<le> n \<Longrightarrow> ncalls w = k + i \<Longrightarrow>
                  get w = (Inr (P i), w\<lparr>ncalls := Suc (ncalls w), trace := trace w @ evs\<rparr>)"
    and falsy: "\<And>i. i \<le> n \<Longrightarrow> state_falsy (P i)"
    and start: "ncalls w = k"
  shows "report_loop get caught a w =
           (Inl download_timeout,
            w\<lparr>ncalls := k + n + 1,
               trace := trace w @ concat (replicate (Suc n) (evs @ [Sleep 1]))\<rparr>)"
  using assms
proof (induction n arbitrary: a w k P)
  case 0
  have "get w = (Inr (P 0), w\<lparr>ncalls := Suc (ncalls w), trace := trace w @ evs\<rparr>)"
    using "0.prems"(2) [of 0 w] "0.prems"(4) by simp
  from report_loop_pending [where get = get and w = w, OF this "0.prems"(3) [of 0]] "0.prems"(1,4)
  show ?case by (simp add: sleep_def log_events_def)
next
  case (Suc n)
  let ?w1 = "w\<lparr>ncalls := Suc (ncalls w), trace := trace w @ evs\<rparr>"
  have "get w = (Inr (P 0), ?w1)"
    using Suc.prems(2) [of 0 w] Suc.prems(4) by simp
  from report_loop_pending [where get = get and w = w, OF this Suc.prems(3) [of 0]] Suc.prems(1)
  have step: "report_loop get caught a w = report_loop get caught (a + 1) (sleep 1 ?w1)"
    by simp
  have rest: "report_loop get caught (a + 1) (sleep 1 ?w1) =
        (Inl download_timeout, (sleep 1 ?w1)\<lparr>ncalls := Suc k + n + 1,
            trace := trace (sleep 1 ?w1) @ concat (replicate (Suc n) (evs @ [Sleep 1]))\<rparr>)"
  proof (rule Suc.IH [where P = "\<lambda>i. P (Suc i)" and k = "Suc k"])
    show "a + 1 + int n = 200" using Suc.prems(1) by simp
    show "get w' = (Inr (P (Suc i)), w'\<lparr>ncalls := Suc (ncalls w'), trace := trace w' @ evs\<rparr>)"
      if "i \<le> n" "ncalls w' = Suc k + i" for i w'
      using Suc.prems(2) [of "Suc i" w'] that by simp
    show "state_falsy (P (Suc i))" if "i \<le> n" for i
      using Suc.prems(3) [of "Suc i"] that by simp
    show "ncalls (sleep 1 ?w1) = Suc k"
      using Suc.prems(4) by (simp add: sleep_def log_events_def)
  qed
  show ?case
    unfolding step rest by (simp add: sleep_def log_events_def)
qed


lemma report_loop_ncalls_bound:
  "(\<And>w. ncalls (snd (get w)) = Suc (ncalls w)) \<Longrightarrow> a \<le> 200 \<Longrightarrow>
   ncalls (snd (report_loop get caught a w)) \<le> ncalls w + nat (201 - a)"
proof (induction get caught a w rule: report_loop.induct)
  case (1 get caught attempt w)
  obtain r w1 where g: "get w = (r, w1)" by (cases "get w")
  have w1: "ncalls w1 = Suc (ncalls w)" using "1.prems"(1) [of w] g by simp
  show ?case
  proof (cases r)
    case (Inl e)
    with g w1 "1.prems"(2) show ?thesis by (simp add: report_loop_raise)
  next
    case (Inr pdf_data)
    show ?thesis
    proof (cases "getitem pdf_data (PStr ''state'')")
      case (Inl e)
      with g Inr w1 "1.prems"(2) show ?thesis
        by (subst report_loop.simps) simp
    next
      case st: (Inr state)
      show ?thesis
      proof (cases "truthy state")
        case True
        with g Inr st w1 "1.prems"(2) show ?thesis
          by (subst report_loop.simps) simp
      next
        case False
        show ?thesis
        proof (cases "attempt + 1 > 200")
          case True
          with False g Inr st w1 "1.prems"(2) show ?thesis
            by (subst report_loop.simps) (simp add: sleep_def log_events_def)
        next
          case le: False
          have "ncalls (snd (report_loop get caught (attempt + 1) (sleep 1 w1)))
                  \<le> ncalls (sleep 1 w1) + nat (201 - (attempt + 1))"
            using "1.IH" [OF g [symmetric] Inr st False le "1.prems"(1)] le by simp
          with False le g Inr st w1 "1.prems"(2) show ?thesis
            by (subst report_loop.simps) (simp add: sleep_def log_events_def)
        qed
      qed
    qed
  qed
qed

lemma NetRPC_request_Reply:
  "T (ncalls w) (PStr service # PStr method # args) = Reply v \<Longrightarrow>
   NetRPC_request T c service method args w =
     (Inr v, w\<lparr>ncalls := Suc (ncalls w), trace := trace w @ net_cycle c service method args\<rparr>)"
  by (simp add: NetRPC_request_def net_cycle_def log_events_def Let_def)

lemma XMLRPC_report_ready_after:
  assumes "N \<le> 200" and "database c = Some db"
    and "T (ncalls w) Report ''report''
           [db, uid, upasswd, report_name, PList [obj_id],
            report_data osv_name obj_id report_type, report_context ctx] = Inr rid"
    and "\<And>i. i \<le> N \<Longrightarrow>
           T (ncalls w + 1 + i) Report ''report_get'' [db, uid, upasswd, rid] = Inr (P i)"
    and "\<And>i. i < N \<Longrightarrow> state_falsy (P i)" and "state_truthy (P N)"
  shows "XMLRPC_report T c uid upasswd report_name osv_name obj_id report_type ctx w =
           (Inr (P N),
            w\<lparr>ncalls := ncalls w + N + 2,
               trace := trace w @
                 XmlCall Report ''report''
                   [db, uid, upasswd, report_name, PList [obj_id],
                    report_data osv_name obj_id report_type, report_context ctx] #
                 concat (replicate N [XmlCall Report ''report_get'' [db, uid, upasswd, rid], Sleep 1]) @
                 [XmlCall Report ''report_get'' [db, uid, upasswd, rid]]\<rparr>)"
proof -
  let ?sub = "[db, uid, upasswd, report_name, PList [obj_id],
               report_data osv_name obj_id report_type, report_context ctx]"
  let ?w1 = "w\<lparr>ncalls := Suc (ncalls w), trace := trace w @ [XmlCall Report ''report'' ?sub]\<rparr>"
  let ?get = "xml_call T Report ''report_get'' [db, uid, upasswd, rid]"
  have loop: "report_loop ?get is_xmlrpclib_Error 0 ?w1 =
      (Inr (P N), ?w1\<lparr>ncalls := Suc (ncalls w) + N + 1,
         trace := trace ?w1 @
           concat (replicate N ([XmlCall Report ''report_get'' [db, uid, upasswd, rid]] @ [Sleep 1])) @
           [XmlCall Report ''report_get'' [db, uid, upasswd, rid]]\<rparr>)"
  proof (rule report_loop_ready_after)
    show "0 + int N \<le> 200" using assms(1) by simp
    show "?get w' = (Inr (P i), w'\<lparr>ncalls := Suc (ncalls w'),
              trace := trace w' @ [XmlCall Report ''report_get'' [db, uid, upasswd, rid]]\<rparr>)"
      if "i \<le> N" "ncalls w' = Suc (ncalls w) + i" for i w'
      using assms(4) [OF that(1)] that(2) by (simp add: xml_call_def)
    show "state_falsy (P i)" if "i < N" for i by (rule assms(5) [OF that])
    show "state_truthy (P N)" by (rule assms(6))
    show "ncalls ?w1 = Suc (ncalls w)" by simp
  qed
  show ?thesis
    using assms(2,3) by (simp add: XMLRPC_report_def xml_call_def loop)
qed

lemma NetRPC_report_ready_after:
  assumes "N \<le> 200" and "database c = Some db"
    and "T (ncalls w)
           (PStr ''report'' # PStr ''report'' #
            [db, uid, upasswd, report_name, PList [obj_id],
             report_data osv_name obj_id report_type, report_context ctx]) = Reply rid"
    and "\<And>i. i \<le> N \<Longrightarrow>
           T (ncalls w + 1 + i) (PStr ''report'' # PStr ''report_get'' # [db, uid, upasswd, rid])
             = Reply (P i)"
    and "\<And>i. i < N \<Longrightarrow> state_falsy (P i)" and "state_truthy (P N)"
  shows "NetRPC_report T c uid upasswd report_name osv_name obj_id report_type ctx w =
           (Inr (P N),
            w\<lparr>ncalls := ncalls w + N + 2,
               trace := trace w @
                 net_cycle c ''report'' ''report''
                   [db, uid, upasswd, report_name, PList [obj_id],
                    report_data osv_name obj_id report_type, report_context ctx] @
                 concat (replicate N
                   (net_cycle c ''report'' ''report_get'' [db, uid, upasswd, rid] @ [Sleep 1])) @
                 net_cycle c ''report'' ''report_get'' [db, uid, upasswd, rid]\<rparr>)"
proof -
  let ?sub = "[db, uid, upasswd, report_name, PList [obj_id],
               report_data osv_name obj_id report_type, report_context ctx]"
  let ?w1 = "w\<lparr>ncalls := Suc (ncalls w),
               trace := trace w @ net_cycle c ''report'' ''report'' ?sub\<rparr>"
  let ?get = "NetRPC_request T c ''report'' ''report_get'' [db, uid, upasswd, rid]"
  have sub: "NetRPC_request T c ''report'' ''report'' ?sub w = (Inr rid, ?w1)"
    by (rule NetRPC_request_Reply) (rule assms(3))
  have loop: "report_loop ?get is_NetRPCError 0 ?w1 =
      (Inr (P N), ?w1\<lparr>ncalls := Suc (ncalls w) + N + 1,
         trace := trace ?w1 @
           concat (replicate N (net_cycle c ''report'' ''report_get'' [db, uid, upasswd, rid] @ [Sleep 1])) @
           net_cycle c ''report'' ''report_get'' [db, uid, upasswd, rid]\<rparr>)"
  proof (rule report_loop_ready_after)
    show "0 + int N \<le> 200" using assms(1) by simp
    show "?get w' = (Inr (P i), w'\<lparr>ncalls := Suc (ncalls w'),
              trace := trace w' @ net_cycle c ''report'' ''report_get'' [db, uid, upasswd, rid]\<rparr>)"
      if "i \<le> N" "ncalls w' = Suc (ncalls w) + i" for i w'
    proof (rule NetRPC_request_Reply)
      show "T (ncalls w') (PStr ''report'' # PStr ''report_get'' # [db, uid, upasswd, rid])
              = Reply (P i)"
        using assms(4) [OF that(1)] that(2) by simp
    qed
    show "state_falsy (P i)" if "i < N" for i by (rule assms(5) [OF that])
    show "state_truthy (P N)" by (rule assms(6))
    show "ncalls ?w1 = Suc (ncalls w)" by simp
  qed
  show ?thesis
    using assms(2) by (simp add: NetRPC_report_def sub loop)
qed

lemma XMLRPC_report_returns_truthy:
  "XMLRPC_report T c uid upasswd report_name osv_name obj_id report_type ctx w = (Inr p, w')
   \<Longrightarrow> state_truthy p"
  by (auto simp: XMLRPC_report_def split: option.splits prod.splits sum.splits if_splits
           dest: report_loop_returns_truthy)

lemma NetRPC_report_returns_truthy:
  "NetRPC_report T c uid upasswd report_name osv_name obj_id report_type ctx w = (Inr p, w')
   \<Longrightarrow> state_truthy p"
  by (auto simp: NetRPC_report_def split: option.splits prod.splits sum.splits exc.splits
           dest: report_loop_returns_truthy)

lemma XMLRPC_report_timeout:
  assumes "database c = Some db"
    and "T (ncalls w) Report ''report''
           [db, uid, upasswd, report_name, PList [obj_id],
            report_data osv_name obj_id report_type, report_context ctx] = Inr rid"
    and "\<And>i. i \<le> 200 \<Longrightarrow>
           T (ncalls w + 1 + i) Report ''report_get'' [db, uid, upasswd, rid] = Inr (P i)"
    and "\<And>i. i \<le> 200 \<Longrightarrow> state_falsy (P i)"
  shows "XMLRPC_report T c uid upasswd report_name osv_name obj_id report_type ctx w =
           (Inl download_timeout,
            w\<lparr>ncalls := ncalls w + 202,
               trace := trace w @
                 XmlCall Report ''report''
                   [db, uid, upasswd, report_name, PList [obj_id],
                    report_data osv_name obj_id report_type, report_context ctx] #
                 concat (replicate 201
                   [XmlCall Report ''report_get'' [db, uid, upasswd, rid], Sleep 1])\<rparr>)"
proof -
  let ?sub = "[db, uid, upasswd, report_name, PList [obj_id],
               report_data osv_name obj_id report_type, report_context ctx]"
  let ?w1 = "w\<lparr>ncalls := Suc (ncalls w), trace := trace w @ [XmlCall Report ''report'' ?sub]\<rparr>"
  let ?get = "xml_call T Report ''report_get'' [db, uid, upasswd, rid]"
  have loop: "report_loop ?get is_xmlrpclib_Error 0 ?w1 =
      (Inl download_timeout, ?w1\<lparr>ncalls := Suc (ncalls w) + 200 + 1,
         trace := trace ?w1 @
           concat (replicate (Suc 200)
             ([XmlCall Report ''report_get'' [db, uid, upasswd, rid]] @ [Sleep 1]))\<rparr>)"
  proof (rule report_loop_timeout_after)
    show "0 + int 200 = 200" by simp
    show "?get w' = (Inr (P i), w'\<lparr>ncalls := Suc (ncalls w'),
              trace := trace w' @ [XmlCall Report ''report_get'' [db, uid, upasswd, rid]]\<rparr>)"
      if "i \<le> 200" "ncalls w' = Suc (ncalls w) + i" for i w'
      using assms(3) [OF that(1)] that(2) by (simp add: xml_call_def)
    show "state_falsy (P i)" if "i \<le> 200" for i by (rule assms(4) [OF that])
    show "ncalls ?w1 = Suc (ncalls w)" by simp
  qed
  have n: "Suc 200 = 201" by simp
  show ?thesis
    using assms(1,2) unfolding XMLRPC_report_def by (simp add: xml_call_def loop n del: replicate_Suc replicate.simps)
qed

lemma NetRPC_report_timeout:
  assumes "database c = Some db"
    and "T (ncalls w)
           (PStr ''report'' # PStr ''report'' #
            [db, uid, upasswd, report_name, PList [obj_id],
             report_data osv_name obj_id report_type, report_context ctx]) = Reply rid"
    and "\<And>i. i \<le> 200 \<Longrightarrow>
           T (ncalls w + 1 + i) (PStr ''report'' # PStr ''report_get'' # [db, uid, upasswd, rid])
             = Reply (P i)"
    and "\<And>i. i \<le> 200 \<Longrightarrow> state_falsy (P i)"
  shows "NetRPC_report T c uid upasswd report_name osv_name obj_id report_type ctx w =
           (Inl download_timeout,
            w\<lparr>ncalls := ncalls w + 202,
               trace := trace w @
                 net_cycle c ''report'' ''report''
                   [db, uid, upasswd, report_name, PList [obj_id],
                    report_data osv_name obj_id report_type, report_context ctx] @
                 concat (replicate 201
                   (net_cycle c ''report'' ''report_get'' [db, uid, upasswd, rid] @ [Sleep 1]))\<rparr>)"
proof -
  let ?sub = "[db, uid, upasswd, report_name, PList [obj_id],
               report_data osv_name obj_id report_type, report_context ctx]"
  let ?w1 = "w\<lparr>ncalls := Suc (ncalls w),
               trace := trace w @ net_cycle c ''report'' ''report'' ?sub\<rparr>"
  let ?get = "NetRPC_request T c ''report'' ''report_get'' [db, uid, upasswd, rid]"
  have sub: "NetRPC_request T c ''report'' ''report'' ?sub w = (Inr rid, ?w1)"
    by (rule NetRPC_request_Reply) (rule assms(2))
  have loop: "report_loop ?get is_NetRPCError 0 ?w1 =
      (Inl download_timeout, ?w1\<lparr>ncalls := Suc (ncalls w) + 200 + 1,
         trace := trace ?w1 @
           concat (replicate (Suc 200)
             (net_cycle c ''report'' ''report_get'' [db, uid, upasswd, rid] @ [Sleep 1]))\<rparr>)"
  proof (rule report_loop_timeout_after)
    show "0 + int 200 = 200" by simp
    show "?get w' = (Inr (P i), w'\<lparr>ncalls := Suc (ncalls w'),
              trace := trace w' @ net_cycle c ''report'' ''report_get'' [db, uid, upasswd, rid]\<rparr>)"
      if "i \<le> 200" "ncalls w' = Suc (ncalls w) + i" for i w'
    proof (rule NetRPC_request_Reply)
      show "T (ncalls w') (PStr ''report'' # PStr ''report_get'' # [db, uid, upasswd, rid])
              = Reply (P i)"
        using assms(3) [OF that(1)] that(2) by simp
    qed
    show "state_falsy (P i)" if "i \<le> 200" for i by (rule assms(4) [OF that])
    show "ncalls ?w1 = Suc (ncalls w)" by simp
  qed
  have n: "Suc 200 = 201" by simp
  show ?thesis
    using assms(1) unfolding NetRPC_report_def by (simp add: sub loop n del: replicate_Suc replicate.simps)
qed

lemma xml_call_ncalls: "ncalls (snd (xml_call T ep m as w)) = Suc (ncalls w)"
  by (simp add: xml_call_def)

lemma NetRPC_request_ncalls:
  "ncalls (snd (NetRPC_request T c service method args w)) = Suc (ncalls w)"
  by (simp add: NetRPC_request_def log_events_def Let_def split: net_outcome.splits)

lemma XMLRPC_report_ncalls_bound:
  "ncalls (snd (XMLRPC_report T c uid upasswd report_name osv_name obj_id report_type ctx w))
     \<le> ncalls w + 202"
proof (cases "database c")
  case None
  then show ?thesis by (simp add: XMLRPC_report_def)
next
  case (Some db)
  let ?sub = "[db, uid, upasswd, report_name, PList [obj_id],
               report_data osv_name obj_id report_type, report_context ctx]"
  obtain r w1 where s: "xml_call T Report ''report'' ?sub w = (r, w1)"
    by (cases "xml_call T Report ''report'' ?sub w")
  have w1: "ncalls w1 = Suc (ncalls w)"
    using xml_call_ncalls [of T Report "''report''" ?sub w] s by simp
  show ?thesis
  proof (cases r)
    case (Inl e)
    with Some s w1 show ?thesis
      by (simp add: XMLRPC_report_def split: sum.splits)
  next
    case (Inr rid)
    have "ncalls (snd (report_loop (xml_call T Report ''report_get'' [db, uid, upasswd, rid])
                         is_xmlrpclib_Error 0 w1)) \<le> ncalls w1 + nat (201 - 0)"
      by (rule report_loop_ncalls_bound) (simp_all add: xml_call_ncalls)
    with Some s Inr w1 show ?thesis
      by (simp add: XMLRPC_report_def)
  qed
qed

lemma NetRPC_report_ncalls_bound:
  "ncalls (snd (NetRPC_report T c uid upasswd report_name osv_name obj_id report_type ctx w))
     \<le> ncalls w + 202"
proof (cases "database c")
  case None
  then show ?thesis by (simp add: NetRPC_report_def)
next
  case (Some db)
  let ?sub = "[db, uid, upasswd, report_name, PList [obj_id],
               report_data osv_name obj_id report_type, report_context ctx]"
  obtain r w1 where s: "NetRPC_request T c ''report'' ''report'' ?sub w = (r, w1)"
    by (cases "NetRPC_request T c ''report'' ''report'' ?sub w")
  have w1: "ncalls w1 = Suc (ncalls w)"
    using NetRPC_request_ncalls [of T c "''report''" "''report''" ?sub w] s by simp
  show ?thesis
  proof (cases r)
    case (Inl e)
    with Some s w1 show ?thesis
      by (simp add: NetRPC_report_def split: exc.splits)
  next
    case (Inr rid)
    have "ncalls (snd (report_loop (NetRPC_request T c ''report'' ''report_get'' [db, uid, upasswd, rid])
                         is_NetRPCError 0 w1)) \<le> ncalls w1 + nat (201 - 0)"
      by (rule report_loop_ncalls_bound) (simp_all add: NetRPC_request_ncalls)
    with Some s Inr w1 show ?thesis
      by (simp add: NetRPC_report_def)
  qed
qed

lemma report_loop_trace_extends:
  "(\<And>w. \<exists>es. trace (snd (get w)) = trace w @ es) \<Longrightarrow>
   \<exists>es. trace (snd (report_loop get caught a w)) = trace w @ es"
proof (induction get caught a w rule: report_loop.induct)
  case (1 get caught attempt w)
  obtain r w1 where g: "get w = (r, w1)" by (cases "get w")
  obtain es1 where w1: "trace w1 = trace w @ es1" using "1.prems" [of w] g by auto
  show ?case
  proof (cases r)
    case (Inl e)
    with g w1 show ?thesis by (simp add: report_loop_raise)
  next
    case (Inr pdf_data)
    show ?thesis
    proof (cases "getitem pdf_data (PStr ''state'')")
      case (Inl e)
      with g Inr w1 show ?thesis
        by (subst report_loop.simps) simp
    next
      case st: (Inr state)
      show ?thesis
      proof (cases "truthy state")
        case True
        with g Inr st w1 show ?thesis
          by (subst report_loop.simps) simp
      next
        case False
        show ?thesis
        proof (cases "attempt + 1 > 200")
          case True
          with False g Inr st w1 show ?thesis
            by (subst report_loop.simps) (simp add: sleep_def log_events_def)
        next
          case le: False
          obtain es2 where
            "trace (snd (report_loop get caught (attempt + 1) (sleep 1 w1)))
               = trace (sleep 1 w1) @ es2"
            using "1.IH" [OF g [symmetric] Inr st False le "1.prems"] by auto
          with False le g Inr st w1 show ?thesis
            by (subst report_loop.simps) (simp add: sleep_def log_events_def)
        qed
      qed
    qed
  qed
qed

lemma xml_call_trace:
  "trace (snd (xml_call T ep m as w)) = trace w @ [XmlCall ep m as]"
  by (simp add: xml_call_def)

lemma NetRPC_request_trace_extends:
  "\<exists>es. trace (snd (NetRPC_request T c service method args w)) = trace w @ es"
  by (simp add: NetRPC_request_def log_events_def Let_def split: net_outcome.splits)

lemma XMLRPC_report_first_event:
  assumes "database c = Some db"
  shows "\<exists>rest. trace (snd (XMLRPC_report T c uid upasswd report_name osv_name obj_id
                              report_type ctx w)) =
           trace w @
           XmlCall Report ''report''
             [db, uid, upasswd, report_name, PList [obj_id],
              report_data osv_name obj_id report_type, report_context ctx] # rest"
proof -
  let ?sub = "[db, uid, upasswd, report_name, PList [obj_id],
               report_data osv_name obj_id report_type, report_context ctx]"
  let ?w1 = "w\<lparr>ncalls := Suc (ncalls w), trace := trace w @ [XmlCall Report ''report'' ?sub]\<rparr>"
  show ?thesis
  proof (cases "T (ncalls w) Report ''report'' ?sub")
    case (Inl e)
    with assms show ?thesis
      by (simp add: XMLRPC_report_def xml_call_def split: sum.splits)
  next
    case (Inr rid)
    obtain es where
      "trace (snd (report_loop (xml_call T Report ''report_get'' [db, uid, upasswd, rid])
                     is_xmlrpclib_Error 0 ?w1)) = trace ?w1 @ es"
      using report_loop_trace_extends
        [of "xml_call T Report ''report_get'' [db, uid, upasswd, rid]" is_xmlrpclib_Error 0 ?w1]
      by (auto simp: xml_call_trace)
    with assms Inr show ?thesis
      by (simp add: XMLRPC_report_def xml_call_def)
  qed
qed

lemma NetRPC_report_first_cycle:
  assumes "database c = Some db"
    and "T (ncalls w)
           (PStr ''report'' # PStr ''report'' #
            [db, uid, upasswd, report_name, PList [obj_id],
             report_data osv_name obj_id report_type, report_context ctx]) = Reply rid"
  shows "\<exists>rest. trace (snd (NetRPC_report T c uid upasswd report_name osv_name obj_id
                              report_type ctx w)) =
           trace w @
           net_cycle c ''report'' ''report''
             [db, uid, upasswd, report_name, PList [obj_id],
              report_data osv_name obj_id report_type, report_context ctx] @ rest"
proof -
  let ?sub = "[db, uid, upasswd, report_name, PList [obj_id],
               report_data osv_name obj_id report_type, report_context ctx]"
  let ?w1 = "w\<lparr>ncalls := Suc (ncalls w),
               trace := trace w @ net_cycle c ''report'' ''report'' ?sub\<rparr>"
  have sub: "NetRPC_request T c ''report'' ''report'' ?sub w = (Inr rid, ?w1)"
    by (rule NetRPC_request_Reply) (rule assms(2))
  obtain es where
    "trace (snd (report_loop (NetRPC_request T c ''report'' ''report_get'' [db, uid, upasswd, rid])
                   is_NetRPCError 0 ?w1)) = trace ?w1 @ es"
    using report_loop_trace_extends
      [of "NetRPC_request T c ''report'' ''report_get'' [db, uid, upasswd, rid]"
          is_NetRPCError 0 ?w1]
      NetRPC_request_trace_extends
    by blast
  with assms(1) show ?thesis
    by (simp add: NetRPC_report_def sub)
qed

lemma NetRPC_request_raises:
  "T (ncalls w) (PStr service # PStr method # args) \<in>
     {NewRaises e, ConnectRaises e, SendRaises e, ReceiveRaises e, DisconnectRaises e} \<Longrightarrow>
   fst (NetRPC_request T c service method args w) = Inl e"
  by (auto simp: NetRPC_request_def Let_def)

lemma report_loop_raises_after:
  assumes bound: "a + int n \<le> 200"
    and polls: "\<And>i w. i < n \<Longrightarrow> ncalls w = k + i \<Longrightarrow>
                  get w = (Inr (P i), w\<lparr>ncalls := Suc (ncalls w), trace := trace w @ evs\<rparr>)"
    and falsy: "\<And>i. i < n \<Longrightarrow> state_falsy (P i)"
    and raises: "\<And>w. ncalls w = k + n \<Longrightarrow> fst (get w) = Inl e"
    and start: "ncalls w = k"
  shows "fst (report_loop get caught a w) = Inl (if caught e then download_failed else e)"
  using assms
proof (induction n arbitrary: a w k P)
  case 0
  obtain w1 where "get w = (Inl e, w1)"
    using "0.prems"(4) [of w] "0.prems"(5) by (cases "get w") simp
  then show ?case
    by (simp add: report_loop_raise)
next
  case (Suc n)
  let ?w1 = "w\<lparr>ncalls := Suc (ncalls w), trace := trace w @ evs\<rparr>"
  have "get w = (Inr (P 0), ?w1)"
    using Suc.prems(2) [of 0 w] Suc.prems(5) by simp
  from report_loop_pending [where get = get and w = w, OF this Suc.prems(3) [of 0]] Suc.prems(1)
  have step: "report_loop get caught a w = report_loop get caught (a + 1) (sleep 1 ?w1)"
    by simp
  have "fst (report_loop get caught (a + 1) (sleep 1 ?w1)) =
          Inl (if caught e then download_failed else e)"
  proof (rule Suc.IH [where P = "\<lambda>i. P (Suc i)" and k = "Suc k"])
    show "a + 1 + int n \<le> 200" using Suc.prems(1) by simp
    show "get w' = (Inr (P (Suc i)), w'\<lparr>ncalls := Suc (ncalls w'), trace := trace w' @ evs\<rparr>)"
      if "i < n" "ncalls w' = Suc k + i" for i w'
      using Suc.prems(2) [of "Suc i" w'] that by simp
    show "state_falsy (P (Suc i))" if "i < n" for i
      using Suc.prems(3) [of "Suc i"] that by simp
    show "fst (get w') = Inl e" if "ncalls w' = Suc k + n" for w'
      using Suc.prems(4) [of w'] that by simp
    show "ncalls (sleep 1 ?w1) = Suc k"
      using Suc.prems(5) by (simp add: sleep_def log_events_def)
  qed
  then show ?case
    unfolding step .
qed

lemma XMLRPC_report_poll_raises:
  assumes "N \<le> 200" and "database c = Some db"
    and "T (ncalls w) Report ''report''
           [db, uid, upasswd, report_name, PList [obj_id],
            report_data osv_name obj_id report_type, report_context ctx] = Inr rid"
    and "\<And>i. i < N \<Longrightarrow>
           T (ncalls w + 1 + i) Report ''report_get'' [db, uid, upasswd, rid] = Inr (P i)"
    and "\<And>i. i < N \<Longrightarrow> state_falsy (P i)"
    and "T (ncalls w + 1 + N) Report ''report_get'' [db, uid, upasswd, rid] = Inl e"
  shows "fst (XMLRPC_report T c uid upasswd report_name osv_name obj_id report_type ctx w) =
           Inl (if is_xmlrpclib_Error e then download_failed else e)"
proof -
  let ?sub = "[db, uid, upasswd, report_name, PList [obj_id],
               report_data osv_name obj_id report_type, report_context ctx]"
  let ?w1 = "w\<lparr>ncalls := Suc (ncalls w), trace := trace w @ [XmlCall Report ''report'' ?sub]\<rparr>"
  let ?get = "xml_call T Report ''report_get'' [db, uid, upasswd, rid]"
  have "fst (report_loop ?get is_xmlrpclib_Error 0 ?w1) =
          Inl (if is_xmlrpclib_Error e then download_failed else e)"
  proof (rule report_loop_raises_after [where n = N and k = "Suc (ncalls w)" and P = P])
    show "0 + int N \<le> 200" using assms(1) by simp
    show "?get w' = (Inr (P i), w'\<lparr>ncalls := Suc (ncalls w'),
              trace := trace w' @ [XmlCall Report ''report_get'' [db, uid, upasswd, rid]]\<rparr>)"
      if "i < N" "ncalls w' = Suc (ncalls w) + i" for i w'
      using assms(4) [OF that(1)] that(2) by (simp add: xml_call_def)
    show "state_falsy (P i)" if "i < N" for i by (rule assms(5) [OF that])
    show "fst (?get w') = Inl e" if "ncalls w' = Suc (ncalls w) + N" for w'
      using assms(6) that by (simp add: xml_call_def)
    show "ncalls ?w1 = Suc (ncalls w)" by simp
  qed
  then show ?thesis
    using assms(2,3) by (simp add: XMLRPC_report_def xml_call_def)
qed

lemma NetRPC_report_poll_raises:
  assumes "N \<le> 200" and "database c = Some db"
    and "T (ncalls w)
           (PStr ''report'' # PStr ''report'' #
            [db, uid, upasswd, report_name, PList [obj_id],
             report_data osv_name obj_id report_type, report_context ctx]) = Reply rid"
    and "\<And>i. i < N \<Longrightarrow>
           T (ncalls w + 1 + i) (PStr ''report'' # PStr ''report_get'' # [db, uid, upasswd, rid])
             = Reply (P i)"
    and "\<And>i. i < N \<Longrightarrow> state_falsy (P i)"
    and "T (ncalls w + 1 + N) (PStr ''report'' # PStr ''report_get'' # [db, uid, upasswd, rid])
           \<in> {NewRaises e, ConnectRaises e, SendRaises e, ReceiveRaises e, DisconnectRaises e}"
  shows "fst (NetRPC_report T c uid upasswd report_name osv_name obj_id report_type ctx w) =
           Inl (if is_NetRPCError e then download_failed else e)"
proof -
  let ?sub = "[db, uid, upasswd, report_name, PList [obj_id],
               report_data osv_name obj_id report_type, report_context ctx]"
  let ?w1 = "w\<lparr>ncalls := Suc (ncalls w),
               trace := trace w @ net_cycle c ''report'' ''report'' ?sub\<rparr>"
  let ?get = "NetRPC_request T c ''report'' ''report_get'' [db, uid, upasswd, rid]"
  have sub: "NetRPC_request T c ''report'' ''report'' ?sub w = (Inr rid, ?w1)"
    by (rule NetRPC_request_Reply) (rule assms(3))
  have "fst (report_loop ?get is_NetRPCError 0 ?w1) =
          Inl (if is_NetRPCError e then download_failed else e)"
  proof (rule report_loop_raises_after [where n = N and k = "Suc (ncalls w)" and P = P])
    show "0 + int N \<le> 200" using assms(1) by simp
    show "?get w' = (Inr (P i), w'\<lparr>ncalls := Suc (ncalls w'),
              trace := trace w' @ net_cycle c ''report'' ''report_get'' [db, uid, upasswd, rid]\<rparr>)"
      if "i < N" "ncalls w' = Suc (ncalls w) + i" for i w'
    proof (rule NetRPC_request_Reply)
      show "T (ncalls w') (PStr ''report'' # PStr ''report_get'' # [db, uid, upasswd, rid])
              = Reply (P i)"
        using assms(4) [OF that(1)] that(2) by simp
    qed
    show "state_falsy (P i)" if "i < N" for i by (rule assms(5) [OF that])
    show "fst (?get w') = Inl e" if "ncalls w' = Suc (ncalls w) + N" for w'
    proof (rule NetRPC_request_raises)
      show "T (ncalls w') (PStr ''report'' # PStr ''report_get'' # [db, uid, upasswd, rid])
              \<in> {NewRaises e, ConnectRaises e, SendRaises e, ReceiveRaises e, DisconnectRaises e}"
        using assms(6) that by simp
    qed
    show "ncalls ?w1 = Suc (ncalls w)" by simp
  qed
  then show ?thesis
    using assms(2) by (simp add: NetRPC_report_def sub)
qed

section \<open>Evaluation of test doubles\<close>

lemmas eval_defs =
  XMLRPC_report_def XMLRPC_login_def XMLRPC_execute_def XMLRPC_exec_workflow_def
  NetRPC_report_def NetRPC_login_def NetRPC_execute_def NetRPC_exec_workflow_def
  NetRPC_request_def xml_call_def xml_script_def net_script_def log_events_def sleep_def
  logged_in_def fresh_def world0_def report_data_def report_context_def
  pending_def ready_def download_failed_def download_timeout_def Let_def

lemma net_cycle_database [simp]:
  "net_cycle (c\<lparr>database := d\<rparr>) service method args = net_cycle c service method args"
  by (simp add: net_cycle_def)

section \<open>The report polling loop: claims C1 to C3\<close>

text \<open>
  C1.  For both connector variants: when the report request is accepted, the first
  \<open>N \<le> 200\<close> status polls return a payload whose \<^verbatim>\<open>'state'\<close> is falsy and poll
  \<open>N + 1\<close> returns one whose \<^verbatim>\<open>'state'\<close> is truthy, \<^verbatim>\<open>report\<close> returns that
  last payload unchanged, after exactly \<open>N + 1\<close> status polls with one
  \<^verbatim>\<open>sleep(1)\<close> between consecutive polls (the trace lists them).  Whatever the
  transport does, a payload that \<^verbatim>\<open>report\<close> returns has a truthy
  \<^verbatim>\<open>'state'\<close>.
\<close>

theorem report_returns_final_payload_after_ready_poll:
  fixes N :: nat
  shows
  "(N \<le> 200 \<and> database c = Some db \<and>
    T (ncalls w) Report ''report''
      [db, uid, upasswd, report_name, PList [obj_id],
       report_data osv_name obj_id report_type, report_context ctx] = Inr rid \<and>
    (\<forall>i\<le>N. T (ncalls w + 1 + i) Report ''report_get'' [db, uid, upasswd, rid] = Inr (P i)) \<and>
    (\<forall>i<N. state_falsy (P i)) \<and> state_truthy (P N)
    \<longrightarrow>
    XMLRPC_report T c uid upasswd report_name osv_name obj_id report_type ctx w =
      (Inr (P N),
       w\<lparr>ncalls := ncalls w + N + 2,
          trace := trace w @
            XmlCall Report ''report''
              [db, uid, upasswd, report_name, PList [obj_id],
               report_data osv_name obj_id report_type, report_context ctx] #
            concat (replicate N [XmlCall Report ''report_get'' [db, uid, upasswd, rid], Sleep 1]) @
            [XmlCall Report ''report_get'' [db, uid, upasswd, rid]]\<rparr>))
   \<and>
   (N \<le> 200 \<and> database c = Some db \<and>
    U (ncalls w)
      (PStr ''report'' # PStr ''report'' #
       [db, uid, upasswd, report_name, PList [obj_id],
        report_data osv_name obj_id report_type, report_context ctx]) = Reply rid \<and>
    (\<forall>i\<le>N. U (ncalls w + 1 + i) (PStr ''report'' # PStr ''report_get'' # [db, uid, upasswd, rid])
              = Reply (P i)) \<and>
    (\<forall>i<N. state_falsy (P i)) \<and> state_truthy (P N)
    \<longrightarrow>
    NetRPC_report U c uid upasswd report_name osv_name obj_id report_type ctx w =
      (Inr (P N),
       w\<lparr>ncalls := ncalls w + N + 2,
          trace := trace w @
            net_cycle c ''report'' ''report''
              [db, uid, upasswd, report_name, PList [obj_id],
               report_data osv_name obj_id report_type, report_context ctx] @
            concat (replicate N
              (net_cycle c ''report'' ''report_get'' [db, uid, upasswd, rid] @ [Sleep 1])) @
            net_cycle c ''report'' ''report_get'' [db, uid, upasswd, rid]\<rparr>))
   \<and>
   (XMLRPC_report T c uid upasswd report_name osv_name obj_id report_type ctx w = (Inr p, w')
    \<longrightarrow> state_truthy p)
   \<and>
   (NetRPC_report U c uid upasswd report_name osv_name obj_id report_type ctx w = (Inr p, w')
    \<longrightarrow> state_truthy p)"
  by (intro conjI impI XMLRPC_report_ready_after NetRPC_report_ready_after)
     (auto dest: XMLRPC_report_returns_truthy NetRPC_report_returns_truthy)

theorem report_returns_final_payload_after_ready_poll_witness:
  "XMLRPC_report (xml_polls (PInt 7) 2) (logged_in ConnectorXMLRPC)
      (PInt 1) (PStr ''pw'') (PStr ''sale.order'') (PStr ''sale.order'') (PInt 4) (PStr ''pdf'') PNone
      world0 =
     (Inr ready,
      \<lparr>ncalls = 4,
       trace =
         [XmlCall Report ''report''
            [PStr ''db'', PInt 1, PStr ''pw'', PStr ''sale.order'', PList [PInt 4],
             PDict [(PStr ''model'', PStr ''sale.order''), (PStr ''id'', PInt 4),
                    (PStr ''report_type'', PStr ''pdf'')], PDict []],
          XmlCall Report ''report_get'' [PStr ''db'', PInt 1, PStr ''pw'', PInt 7], Sleep 1,
          XmlCall Report ''report_get'' [PStr ''db'', PInt 1, PStr ''pw'', PInt 7], Sleep 1,
          XmlCall Report ''report_get'' [PStr ''db'', PInt 1, PStr ''pw'', PInt 7]]\<rparr>)
   \<and>
   NetRPC_report (net_polls (PInt 7) 2) (logged_in ConnectorNetRPC)
      (PInt 1) (PStr ''pw'') (PStr ''sale.order'') (PStr ''sale.order'') (PInt 4) (PStr ''pdf'') PNone
      world0 =
     (Inr ready,
      \<lparr>ncalls = 4,
       trace =
         [NetNew, NetConnect (PStr ''localhost'') (PInt 8069),
          NetSend
            [PStr ''report'', PStr ''report'',
             PStr ''db'', PInt 1, PStr ''pw'', PStr ''sale.order'', PList [PInt 4],
             PDict [(PStr ''model'', PStr ''sale.order''), (PStr ''id'', PInt 4),
                    (PStr ''report_type'', PStr ''pdf'')], PDict []],
          NetReceive, NetDisconnect,
          NetNew, NetConnect (PStr ''localhost'') (PInt 8069),
          NetSend [PStr ''report'', PStr ''report_get'', PStr ''db'', PInt 1, PStr ''pw'', PInt 7],
          NetReceive, NetDisconnect, Sleep 1,
          NetNew, NetConnect (PStr ''localhost'') (PInt 8069),
          NetSend [PStr ''report'', PStr ''report_get'', PStr ''db'', PInt 1, PStr ''pw'', PInt 7],
          NetReceive, NetDisconnect, Sleep 1,
          NetNew, NetConnect (PStr ''localhost'') (PInt 8069),
          NetSend [PStr ''report'', PStr ''report_get'', PStr ''db'', PInt 1, PStr ''pw'', PInt 7],
          NetReceive, NetDisconnect]\<rparr>)
   \<and> state_truthy ready"
  using report_returns_final_payload_after_ready_poll
    [where N = 2 and c = "logged_in ConnectorXMLRPC" and db = "PStr ''db''"
       and T = "xml_polls (PInt 7) 2" and w = world0 and rid = "PInt 7"
       and P = "\<lambda>i. if i < 2 then pending else ready"
       and uid = "PInt 1" and upasswd = "PStr ''pw''" and report_name = "PStr ''sale.order''"
       and osv_name = "PStr ''sale.order''" and obj_id = "PInt 4" and report_type = "PStr ''pdf''"
       and ctx = PNone]
    report_returns_final_payload_after_ready_poll
    [where N = 2 and c = "logged_in ConnectorNetRPC" and db = "PStr ''db''"
       and U = "net_polls (PInt 7) 2" and w = world0 and rid = "PInt 7"
       and P = "\<lambda>i. if i < 2 then pending else ready"
       and uid = "PInt 1" and upasswd = "PStr ''pw''" and report_name = "PStr ''sale.order''"
       and osv_name = "PStr ''sale.order''" and obj_id = "PInt 4" and report_type = "PStr ''pdf''"
       and ctx = PNone]
  by (simp add: xml_polls_def net_polls_def logged_in_def fresh_def world0_def state_falsy_def
        state_truthy_def pending_def ready_def report_data_def report_context_def net_cycle_def
        numeral_2_eq_2)

text \<open>
  C2.  For both connector variants: when every status poll returns a payload whose
  \<^verbatim>\<open>'state'\<close> is falsy, \<^verbatim>\<open>report\<close> raises \<^verbatim>\<open>ExecReportError\<close> ("Download
  time exceeded, ...") after exactly 201 status polls, each followed by a
  \<^verbatim>\<open>sleep(1)\<close>, and returns no payload.  A poll that is not ready moves the loop
  on with the attempt counter increased by one, or raises once the increased counter
  exceeds 200.  Whatever the transport does, \<^verbatim>\<open>report\<close> makes at most 202 remote
  calls: the request and at most 201 status polls.
\<close>

theorem report_times_out_after_201_pending_polls:
  "(database c = Some db \<and>
    T (ncalls w) Report ''report''
      [db, uid, upasswd, report_name, PList [obj_id],
       report_data osv_name obj_id report_type, report_context ctx] = Inr rid \<and>
    (\<forall>i\<le>200. T (ncalls w + 1 + i) Report ''report_get'' [db, uid, upasswd, rid] = Inr (P i)
               \<and> state_falsy (P i))
    \<longrightarrow>
    XMLRPC_report T c uid upasswd report_name osv_name obj_id report_type ctx w =
      (Inl (ExecReportError (Val (PStr
              ''Download time exceeded, the operation has been canceled.''))),
       w\<lparr>ncalls := ncalls w + 202,
          trace := trace w @
            XmlCall Report ''report''
              [db, uid, upasswd, report_name, PList [obj_id],
               report_data osv_name obj_id report_type, report_context ctx] #
            concat (replicate 201
              [XmlCall Report ''report_get'' [db, uid, upasswd, rid], Sleep 1])\<rparr>))
   \<and>
   (database c = Some db \<and>
    U (ncalls w)
      (PStr ''report'' # PStr ''report'' #
       [db, uid, upasswd, report_name, PList [obj_id],
        report_data osv_name obj_id report_type, report_context ctx]) = Reply rid \<and>
    (\<forall>i\<le>200. U (ncalls w + 1 + i) (PStr ''report'' # PStr ''report_get'' # [db, uid, upasswd, rid])
                = Reply (P i) \<and> state_falsy (P i))
    \<longrightarrow>
    NetRPC_report U c uid upasswd report_name osv_name obj_id report_type ctx w =
      (Inl (ExecReportError (Val (PStr
              ''Download time exceeded, the operation has been canceled.''))),
       w\<lparr>ncalls := ncalls w + 202,
          trace := trace w @
            net_cycle c ''report'' ''report''
              [db, uid, upasswd, report_name, PList [obj_id],
               report_data osv_name obj_id report_type, report_context ctx] @
            concat (replicate 201
              (net_cycle c ''report'' ''report_get'' [db, uid, upasswd, rid] @ [Sleep 1]))\<rparr>))
   \<and>
   (get w = (Inr q, w1) \<and> state_falsy q
    \<longrightarrow>
    report_loop get caught attempt w =
      (if attempt + 1 > 200
       then (Inl (ExecReportError (Val (PStr
                    ''Download time exceeded, the operation has been canceled.''))),
             sleep 1 w1)
       else report_loop get caught (attempt + 1) (sleep 1 w1)))
   \<and>
   ncalls (snd (XMLRPC_report T c uid upasswd report_name osv_name obj_id report_type ctx w))
     \<le> ncalls w + 202
   \<and>
   ncalls (snd (NetRPC_report U c uid upasswd report_name osv_name obj_id report_type ctx w))
     \<le> ncalls w + 202"
proof (intro conjI impI)
  assume h: "database c = Some db \<and>
    T (ncalls w) Report ''report''
      [db, uid, upasswd, report_name, PList [obj_id],
       report_data osv_name obj_id report_type, report_context ctx] = Inr rid \<and>
    (\<forall>i\<le>200. T (ncalls w + 1 + i) Report ''report_get'' [db, uid, upasswd, rid] = Inr (P i)
               \<and> state_falsy (P i))"
  have "XMLRPC_report T c uid upasswd report_name osv_name obj_id report_type ctx w =
      (Inl download_timeout,
       w\<lparr>ncalls := ncalls w + 202,
          trace := trace w @
            XmlCall Report ''report''
              [db, uid, upasswd, report_name, PList [obj_id],
               report_data osv_name obj_id report_type, report_context ctx] #
            concat (replicate 201
              [XmlCall Report ''report_get'' [db, uid, upasswd, rid], Sleep 1])\<rparr>)"
    by (rule XMLRPC_report_timeout [where P = P]) (use h in auto)
  then show "XMLRPC_report T c uid upasswd report_name osv_name obj_id report_type ctx w =
      (Inl (ExecReportError (Val (PStr
              ''Download time exceeded, the operation has been canceled.''))),
       w\<lparr>ncalls := ncalls w + 202,
          trace := trace w @
            XmlCall Report ''report''
              [db, uid, upasswd, report_name, PList [obj_id],
               report_data osv_name obj_id report_type, report_context ctx] #
            concat (replicate 201
              [XmlCall Report ''report_get'' [db, uid, upasswd, rid], Sleep 1])\<rparr>)"
    by (simp add: download_timeout_def)
next
  assume h: "database c = Some db \<and>
    U (ncalls w)
      (PStr ''report'' # PStr ''report'' #
       [db, uid, upasswd, report_name, PList [obj_id],
        report_data osv_name obj_id report_type, report_context ctx]) = Reply rid \<and>
    (\<forall>i\<le>200. U (ncalls w + 1 + i) (PStr ''report'' # PStr ''report_get'' # [db, uid, upasswd, rid])
                = Reply (P i) \<and> state_falsy (P i))"
  have "NetRPC_report U c uid upasswd report_name osv_name obj_id report_type ctx w =
      (Inl download_timeout,
       w\<lparr>ncalls := ncalls w + 202,
          trace := trace w @
            net_cycle c ''report'' ''report''
              [db, uid, upasswd, report_name, PList [obj_id],
               report_data osv_name obj_id report_type, report_context ctx] @
            concat (replicate 201
              (net_cycle c ''report'' ''report_get'' [db, uid, upasswd, rid] @ [Sleep 1]))\<rparr>)"
    by (rule NetRPC_report_timeout [where P = P]) (use h in auto)
  then show "NetRPC_report U c uid upasswd report_name osv_name obj_id report_type ctx w =
      (Inl (ExecReportError (Val (PStr
              ''Download time exceeded, the operation has been canceled.''))),
       w\<lparr>ncalls := ncalls w + 202,
          trace := trace w @
            net_cycle c ''report'' ''report''
              [db, uid, upasswd, report_name, PList [obj_id],
               report_data osv_name obj_id report_type, report_context ctx] @
            concat (replicate 201
              (net_cycle c ''report'' ''report_get'' [db, uid, upasswd, rid] @ [Sleep 1]))\<rparr>)"
    by (simp add: download_timeout_def)
next
  assume "get w = (Inr q, w1) \<and> state_falsy q"
  then have "get w = (Inr q, w1)" "state_falsy q" by simp_all
  from report_loop_pending [where get = get and w = w, OF this]
  show "report_loop get caught attempt w =
      (if attempt + 1 > 200
       then (Inl (ExecReportError (Val (PStr
                    ''Download time exceeded, the operation has been canceled.''))),
             sleep 1 w1)
       else report_loop get caught (attempt + 1) (sleep 1 w1))"
    by (simp add: download_timeout_def)
qed (rule XMLRPC_report_ncalls_bound NetRPC_report_ncalls_bound)+

theorem report_times_out_after_201_pending_polls_witness:
  "XMLRPC_report (xml_polls (PInt 7) 500) (logged_in ConnectorXMLRPC)
      (PInt 1) (PStr ''pw'') (PStr ''sale.order'') (PStr ''sale.order'') (PInt 4) (PStr ''pdf'') PNone
      world0 =
     (Inl (ExecReportError (Val (PStr
             ''Download time exceeded, the operation has been canceled.''))),
      \<lparr>ncalls = 202,
       trace =
         XmlCall Report ''report''
            [PStr ''db'', PInt 1, PStr ''pw'', PStr ''sale.order'', PList [PInt 4],
             PDict [(PStr ''model'', PStr ''sale.order''), (PStr ''id'', PInt 4),
                    (PStr ''report_type'', PStr ''pdf'')], PDict []] #
         concat (replicate 201
           [XmlCall Report ''report_get'' [PStr ''db'', PInt 1, PStr ''pw'', PInt 7], Sleep 1])\<rparr>)
   \<and>
   NetRPC_report (net_polls (PInt 7) 500) (logged_in ConnectorNetRPC)
      (PInt 1) (PStr ''pw'') (PStr ''sale.order'') (PStr ''sale.order'') (PInt 4) (PStr ''pdf'') PNone
      world0 =
     (Inl (ExecReportError (Val (PStr
             ''Download time exceeded, the operation has been canceled.''))),
      \<lparr>ncalls = 202,
       trace =
         net_cycle (logged_in ConnectorNetRPC) ''report'' ''report''
            [PStr ''db'', PInt 1, PStr ''pw'', PStr ''sale.order'', PList [PInt 4],
             PDict [(PStr ''model'', PStr ''sale.order''), (PStr ''id'', PInt 4),
                    (PStr ''report_type'', PStr ''pdf'')], PDict []] @
         concat (replicate 201
           (net_cycle (logged_in ConnectorNetRPC) ''report'' ''report_get''
              [PStr ''db'', PInt 1, PStr ''pw'', PInt 7] @ [Sleep 1]))\<rparr>)"
  using report_times_out_after_201_pending_polls
    [where c = "logged_in ConnectorXMLRPC" and db = "PStr ''db''"
       and T = "xml_polls (PInt 7) 500" and w = world0 and rid = "PInt 7"
       and P = "\<lambda>i. pending"
       and uid = "PInt 1" and upasswd = "PStr ''pw''" and report_name = "PStr ''sale.order''"
       and osv_name = "PStr ''sale.order''" and obj_id = "PInt 4" and report_type = "PStr ''pdf''"
       and ctx = PNone]
    report_times_out_after_201_pending_polls
    [where c = "logged_in ConnectorNetRPC" and db = "PStr ''db''"
       and U = "net_polls (PInt 7) 500" and w = world0 and rid = "PInt 7"
       and P = "\<lambda>i. pending"
       and uid = "PInt 1" and upasswd = "PStr ''pw''" and report_name = "PStr ''sale.order''"
       and osv_name = "PStr ''sale.order''" and obj_id = "PInt 4" and report_type = "PStr ''pdf''"
       and ctx = PNone]
  by (simp add: xml_polls_def net_polls_def logged_in_def fresh_def world0_def state_falsy_def
        pending_def report_data_def report_context_def del: replicate_Suc replicate.simps)

text \<open>
  C3.  A status poll that raises ends \<^verbatim>\<open>report\<close> at once, with no further poll
  (\<open>XMLRPC_report_poll_raises\<close>, \<open>NetRPC_report_poll_raises\<close>): as
  \<^verbatim>\<open>ExecReportError\<close> with the fixed download message when the exception is an
  \<^verbatim>\<open>xmlrpclib.Error\<close> (XML-RPC) or a \<^verbatim>\<open>NetRPCError\<close> (NetRPC), and as the
  exception itself otherwise.  So in the XML-RPC variant a \<^verbatim>\<open>socket.error\<close> of a
  status poll, which \<^verbatim>\<open>login\<close> and \<^verbatim>\<open>execute\<close> of the same class do handle,
  reaches the caller as it is: here after a request that was accepted and one poll that
  was not ready.
\<close>

theorem XMLRPC_report_poll_socket_error_escapes:
  "XMLRPC_report
      (xml_script [Inr (PInt 7), Inr pending, Inl (SocketError (PStr ''Connection refused''))])
      (logged_in ConnectorXMLRPC)
      (PInt 1) (PStr ''pw'') (PStr ''sale.order'') (PStr ''sale.order'') (PInt 4) (PStr ''pdf'') PNone
      world0 =
     (Inl (SocketError (PStr ''Connection refused'')),
      \<lparr>ncalls = 3,
       trace =
         [XmlCall Report ''report''
            [PStr ''db'', PInt 1, PStr ''pw'', PStr ''sale.order'', PList [PInt 4],
             PDict [(PStr ''model'', PStr ''sale.order''), (PStr ''id'', PInt 4),
                    (PStr ''report_type'', PStr ''pdf'')], PDict []],
          XmlCall Report ''report_get'' [PStr ''db'', PInt 1, PStr ''pw'', PInt 7], Sleep 1,
          XmlCall Report ''report_get'' [PStr ''db'', PInt 1, PStr ''pw'', PInt 7]]\<rparr>)"
  by (simp add: eval_defs report_loop.simps)

section \<open>Error kinds: claims C4 and C7\<close>

text \<open>What the handlers of the two variants do map to the operation's own error kind.\<close>

lemma XMLRPC_errors_mapped:
  "T (ncalls w) Common ''login'' [db, user, passwd] = Inl (Fault code str) \<Longrightarrow>
     fst (XMLRPC_login T c db user passwd w) = Inl (LoginError (ReprOf code))"
  "T (ncalls w) Common ''login'' [db, user, passwd] = Inl (SocketError strerror) \<Longrightarrow>
     fst (XMLRPC_login T c db user passwd w) = Inl (LoginError (Val strerror))"
  "database c = Some db \<Longrightarrow>
   T (ncalls w) Object ''execute'' (db # uid # upasswd # osv_name # method # args)
     = Inl (Fault code str) \<Longrightarrow>
     fst (XMLRPC_execute T c uid upasswd osv_name method args w) = Inl (ExecuteError (Val code))"
  "database c = Some db \<Longrightarrow>
   T (ncalls w) Object ''execute'' (db # uid # upasswd # osv_name # method # args)
     = Inl (SocketError strerror) \<Longrightarrow>
     fst (XMLRPC_execute T c uid upasswd osv_name method args w)
       = Inl (ExecuteError (Val strerror))"
  "database c = Some db \<Longrightarrow>
   T (ncalls w) Report ''report''
     [db, uid, upasswd, report_name, PList [obj_id],
      report_data osv_name obj_id report_type, report_context ctx] = Inl (Fault code str) \<Longrightarrow>
     fst (XMLRPC_report T c uid upasswd report_name osv_name obj_id report_type ctx w)
       = Inl (ExecReportError (Val code))"
  by (simp_all add: XMLRPC_login_def XMLRPC_execute_def XMLRPC_report_def xml_call_def)

lemma XMLRPC_exec_workflow_any_Exception:
  "database c = Some db \<Longrightarrow>
   T (ncalls w) Object ''exec_workflow'' [db, uid, upasswd, osv_name, signal, obj_id] = Inl e \<Longrightarrow>
   is_Exception e \<Longrightarrow>
   fst (XMLRPC_exec_workflow T c uid upasswd osv_name signal obj_id w) =
     Inl (ExecWorkflowError (Val (PStr ''Workflow query has failed.'')))"
  by (simp add: XMLRPC_exec_workflow_def xml_call_def)

lemma NetRPC_errors_mapped:
  "fst (NetRPC_request T (c\<lparr>database := Some db\<rparr>) ''common'' ''login'' [db, user, passwd] w)
     = Inl (NetRPCError a) \<Longrightarrow>
   fst (NetRPC_login T c db user passwd w) = Inl (LoginError (UnicodeOf a))"
  "database c = Some db \<Longrightarrow>
   fst (NetRPC_request T c ''object'' ''execute''
          (db # uid # upasswd # osv_name # method # args) w) = Inl (NetRPCError a) \<Longrightarrow>
   fst (NetRPC_execute T c uid upasswd osv_name method args w) = Inl (ExecuteError (UnicodeOf a))"
  "database c = Some db \<Longrightarrow>
   fst (NetRPC_request T c ''object'' ''exec_workflow''
          [db, uid, upasswd, osv_name, signal, obj_id] w) = Inl (NetRPCError a) \<Longrightarrow>
   fst (NetRPC_exec_workflow T c uid upasswd osv_name signal obj_id w) =
     Inl (ExecWorkflowError (Val (PStr ''Workflow query has failed.'')))"
  "database c = Some db \<Longrightarrow>
   fst (NetRPC_request T c ''report'' ''report''
          [db, uid, upasswd, report_name, PList [obj_id],
           report_data osv_name obj_id report_type, report_context ctx] w)
     = Inl (NetRPCError a) \<Longrightarrow>
   fst (NetRPC_report T c uid upasswd report_name osv_name obj_id report_type ctx w) =
     Inl (ExecReportError (UnicodeOf a))"
  by (auto simp: NetRPC_login_def NetRPC_execute_def NetRPC_exec_workflow_def NetRPC_report_def
        Let_def split: prod.splits sum.splits)

text \<open>
  C4.  Not every failure of the transport comes out as the operation's own error kind.
  In the XML-RPC variant \<^verbatim>\<open>report\<close> handles \<^verbatim>\<open>xmlrpclib.Error\<close> only, so a
  \<^verbatim>\<open>socket.error\<close> of the report request reaches the caller as it is;
  \<^verbatim>\<open>login\<close> handles \<^verbatim>\<open>Fault\<close> and \<^verbatim>\<open>socket.error\<close> only, so a
  \<^verbatim>\<open>ProtocolError\<close> reaches the caller as it is; and the handlers of
  \<^verbatim>\<open>execute\<close> and of the report request read \<^verbatim>\<open>faultCode\<close> from an
  \<^verbatim>\<open>xmlrpclib.Error\<close> that, not being a \<^verbatim>\<open>Fault\<close>, has none, which raises
  \<^verbatim>\<open>AttributeError\<close>.
\<close>

theorem XMLRPC_transport_failures_escape:
  "fst (XMLRPC_report (xml_script [Inl (SocketError (PStr ''Connection refused''))])
      (logged_in ConnectorXMLRPC)
      (PInt 1) (PStr ''pw'') (PStr ''sale.order'') (PStr ''sale.order'') (PInt 4) (PStr ''pdf'') PNone
      world0) = Inl (SocketError (PStr ''Connection refused''))
   \<and>
   fst (XMLRPC_login (xml_script [Inl (ProtocolError (PStr ''502 Bad Gateway''))])
      (fresh ConnectorXMLRPC) (PStr ''db'') (PStr ''admin'') (PStr ''pw'') world0)
     = Inl (ProtocolError (PStr ''502 Bad Gateway''))
   \<and>
   fst (XMLRPC_execute (xml_script [Inl (ProtocolError (PStr ''502 Bad Gateway''))])
      (logged_in ConnectorXMLRPC) (PInt 1) (PStr ''pw'') (PStr ''res.partner'') (PStr ''read'')
      [PInt 42] world0)
     = Inl (AttributeError ''faultCode'')
   \<and>
   fst (XMLRPC_report (xml_script [Inl (ProtocolError (PStr ''502 Bad Gateway''))])
      (logged_in ConnectorXMLRPC)
      (PInt 1) (PStr ''pw'') (PStr ''sale.order'') (PStr ''sale.order'') (PInt 4) (PStr ''pdf'') PNone
      world0) = Inl (AttributeError ''faultCode'')"
  by (simp add: eval_defs)

text \<open>
  C7.  \<^verbatim>\<open>exec_workflow\<close> of the XML-RPC variant turns every \<^verbatim>\<open>Exception\<close> into
  \<^verbatim>\<open>ExecWorkflowError\<close> with the fixed message
  (\<open>XMLRPC_exec_workflow_any_Exception\<close>); the NetRPC variant does so for
  \<^verbatim>\<open>NetRPCError\<close> only (\<open>NetRPC_errors_mapped\<close>).  There a missing
  \<^verbatim>\<open>database\<close> attribute reaches the caller as \<^verbatim>\<open>AttributeError\<close>, and an
  exception of another class raised by the transport, such as a \<^verbatim>\<open>socket.error\<close>
  of \<^verbatim>\<open>connect\<close>, reaches the caller as it is; the XML-RPC variant answers the
  same failure with \<^verbatim>\<open>ExecWorkflowError\<close>.
\<close>

theorem NetRPC_exec_workflow_failures_escape:
  "NetRPC_exec_workflow (net_script []) (fresh ConnectorNetRPC)
      (PInt 1) (PStr ''pw'') (PStr ''sale.order'') (PStr ''order_confirm'') (PInt 4) world0
     = (Inl (AttributeError ''database''), world0)
   \<and>
   NetRPC_exec_workflow (net_script [ConnectRaises (SocketError (PStr ''Connection refused''))])
      (logged_in ConnectorNetRPC)
      (PInt 1) (PStr ''pw'') (PStr ''sale.order'') (PStr ''order_confirm'') (PInt 4) world0
     = (Inl (SocketError (PStr ''Connection refused'')),
        \<lparr>ncalls = 1, trace = [NetNew, NetConnect (PStr ''localhost'') (PInt 8069)]\<rparr>)
   \<and>
   XMLRPC_exec_workflow (xml_script [Inl (SocketError (PStr ''Connection refused''))])
      (logged_in ConnectorXMLRPC)
      (PInt 1) (PStr ''pw'') (PStr ''sale.order'') (PStr ''order_confirm'') (PInt 4) world0
     = (Inl (ExecWorkflowError (Val (PStr ''Workflow query has failed.''))),
        \<lparr>ncalls = 1,
         trace = [XmlCall Object ''exec_workflow''
                    [PStr ''db'', PInt 1, PStr ''pw'', PStr ''sale.order'',
                     PStr ''order_confirm'', PInt 4]]\<rparr>)"
  by (simp add: eval_defs)

section \<open>Construction: claims C5 and C6\<close>

lemma Connector_init_ValueError:
  "py_int prt = Inl (ValueError m) \<Longrightarrow>
   Connector_init v srv prt =
     Inl (ConnectorError (Format ''The port '{0}' is invalid. An integer is required.'' [prt]))"
  by (simp add: Connector_init_def)

lemma Connector_init_convertible:
  "py_int prt = Inr n \<Longrightarrow>
   Connector_init v srv prt = Inr \<lparr>variant_of = v, server = srv, port = prt, database = None\<rparr>"
  by (simp add: Connector_init_def)

lemma Connector_init_database:
  "Connector_init v srv prt = Inr c \<Longrightarrow> database c = None"
  by (auto simp: Connector_init_def split: sum.splits exc.splits)

text \<open>
  C5.  The registered identifiers are \<^verbatim>\<open>'xmlrpc'\<close> and \<^verbatim>\<open>'netrpc'\<close>.  For any
  other identifier \<^verbatim>\<open>get_connector\<close> raises \<^verbatim>\<open>ConnectorError\<close>, and the
  message is the template formatted with the identifier and the list of the registered
  ones.  For a registered identifier \<^verbatim>\<open>get_connector\<close> is the constructor of the
  corresponding variant applied to server and port, which, for a port that
  \<^verbatim>\<open>int\<close> converts, yields a connector of that variant holding them.
\<close>

theorem get_connector_dispatch:
  "fst ` set connectors = {''xmlrpc'', ''netrpc''}
   \<and> (protocol \<notin> fst ` set connectors \<longrightarrow>
        (\<exists>ids. get_connector srv prt protocol =
                 Inl (ConnectorError
                   (Format
                     (''The protocol '{0}' is not supported. '' @
                      ''Please choose a protocol among these ones: {1}'')
                     [PStr protocol, PList (map PStr ids)]))
               \<and> set ids = fst ` set connectors))
   \<and> get_connector srv prt ''xmlrpc'' = ConnectorXMLRPC_init srv prt
   \<and> get_connector srv prt ''netrpc'' = ConnectorNetRPC_init srv prt
   \<and> (py_int prt = Inr n \<longrightarrow>
        get_connector srv prt ''xmlrpc'' =
          Inr \<lparr>variant_of = ConnectorXMLRPC, server = srv, port = prt, database = None\<rparr>
        \<and> get_connector srv prt ''netrpc'' =
          Inr \<lparr>variant_of = ConnectorNetRPC, server = srv, port = prt, database = None\<rparr>)"
proof (intro conjI impI)
  show "fst ` set connectors = {''xmlrpc'', ''netrpc''}"
    by (simp add: connectors_def)
next
  assume "protocol \<notin> fst ` set connectors"
  then have "map_of connectors protocol = None"
    by (simp add: map_of_eq_None_iff)
  then have "get_connector srv prt protocol =
      Inl (ConnectorError
        (Format
          (''The protocol '{0}' is not supported. '' @
           ''Please choose a protocol among these ones: {1}'')
          [PStr protocol, PList (map PStr (map fst connectors))]))"
    by (simp add: get_connector_def comp_def)
  then show "\<exists>ids. get_connector srv prt protocol =
                 Inl (ConnectorError
                   (Format
                     (''The protocol '{0}' is not supported. '' @
                      ''Please choose a protocol among these ones: {1}'')
                     [PStr protocol, PList (map PStr ids)]))
               \<and> set ids = fst ` set connectors"
    by (intro exI [of _ "map fst connectors"]) simp
qed (simp_all add: get_connector_def connectors_def construct_def ConnectorXMLRPC_init_def
       ConnectorNetRPC_init_def Connector_init_convertible)

theorem get_connector_dispatch_witness:
  "(\<exists>ids. get_connector (PStr ''localhost'') (PInt 8070) ''jsonrpc'' =
            Inl (ConnectorError
              (Format
                (''The protocol '{0}' is not supported. '' @
                 ''Please choose a protocol among these ones: {1}'')
                [PStr ''jsonrpc'', PList (map PStr ids)]))
          \<and> set ids = {''xmlrpc'', ''netrpc''})
   \<and> get_connector (PStr ''localhost'') (PInt 8070) ''netrpc'' =
       Inr \<lparr>variant_of = ConnectorNetRPC, server = PStr ''localhost'', port = PInt 8070,
            database = None\<rparr>
   \<and> get_connector (PStr ''localhost'') (PStr ''8069'') ''xmlrpc'' =
       Inr \<lparr>variant_of = ConnectorXMLRPC, server = PStr ''localhost'', port = PStr ''8069'',
            database = None\<rparr>"
proof -
  have p: "py_int (PStr ''8069'') = Inr 8069"
    by (simp add: parse_int_def strip_def is_space_def is_digit_def digits_value_def)
  have q: "py_int (PInt 8070) = Inr 8070"
    by simp
  note t1 = get_connector_dispatch [of "''jsonrpc''" "PStr ''localhost''" "PInt 8070" 8070]
  note t2 = get_connector_dispatch [of "''jsonrpc''" "PStr ''localhost''" "PStr ''8069''" 8069]
  have S: "fst ` set connectors = {''xmlrpc'', ''netrpc''}"
    using t1 by (rule conjunct1)
  have "''jsonrpc'' \<notin> fst ` set connectors"
    unfolding S by simp
  with t1 have a: "\<exists>ids. get_connector (PStr ''localhost'') (PInt 8070) ''jsonrpc'' =
            Inl (ConnectorError
              (Format
                (''The protocol '{0}' is not supported. '' @
                 ''Please choose a protocol among these ones: {1}'')
                [PStr ''jsonrpc'', PList (map PStr ids)]))
          \<and> set ids = fst ` set connectors"
    by blast
  have b: "get_connector (PStr ''localhost'') (PInt 8070) ''netrpc'' =
       Inr \<lparr>variant_of = ConnectorNetRPC, server = PStr ''localhost'', port = PInt 8070,
            database = None\<rparr>"
    using t1 q by blast
  have c: "get_connector (PStr ''localhost'') (PStr ''8069'') ''xmlrpc'' =
       Inr \<lparr>variant_of = ConnectorXMLRPC, server = PStr ''localhost'', port = PStr ''8069'',
            database = None\<rparr>"
    using t2 p by blast
  show ?thesis
    using a b c unfolding S by blast
qed

text \<open>
  C6.  A port that \<^verbatim>\<open>int\<close> converts is stored as given
  (\<open>Connector_init_convertible\<close>), and a port on which \<^verbatim>\<open>int\<close> raises
  \<^verbatim>\<open>ValueError\<close> gives \<^verbatim>\<open>ConnectorError\<close> (\<open>Connector_init_ValueError\<close>).
  A port on which \<^verbatim>\<open>int\<close> raises \<^verbatim>\<open>TypeError\<close>, such as \<^verbatim>\<open>None\<close> or a
  list, is not caught: both constructors, and \<^verbatim>\<open>get_connector\<close> through them, end
  in that \<^verbatim>\<open>TypeError\<close>.
\<close>

theorem Connector_init_port_None_TypeError:
  "ConnectorXMLRPC_init (PStr ''localhost'') PNone =
     Inl (TypeError ''int() argument must be a string or a number'')
   \<and> ConnectorNetRPC_init (PStr ''localhost'') PNone =
     Inl (TypeError ''int() argument must be a string or a number'')
   \<and> get_connector (PStr ''localhost'') PNone ''xmlrpc'' =
     Inl (TypeError ''int() argument must be a string or a number'')
   \<and> get_connector (PStr ''localhost'') (PList [PInt 8069]) ''netrpc'' =
     Inl (TypeError ''int() argument must be a string or a number'')"
  by (simp add: get_connector_def connectors_def construct_def ConnectorXMLRPC_init_def
        ConnectorNetRPC_init_def Connector_init_def)

section \<open>The NetRPC request cycle: claim C8\<close>

text \<open>
  The steps of a request, whatever the transport does: the trace grows by an initial
  part of the cycle, up to and including the step that raises, and holds the
  \<^verbatim>\<open>disconnect\<close> only when \<^verbatim>\<open>receive\<close> has returned.
\<close>

lemma NetRPC_request_steps:
  "trace (snd (NetRPC_request T c service mname msg w)) =
     trace w @
     take (case T (ncalls w) (PStr service # PStr mname # msg) of
             NewRaises e \<Rightarrow> 1
           | ConnectRaises e \<Rightarrow> 2
           | SendRaises e \<Rightarrow> 3
           | ReceiveRaises e \<Rightarrow> 4
           | DisconnectRaises e \<Rightarrow> 5
           | Reply v \<Rightarrow> 5)
       (net_cycle c service mname msg)"
  by (simp add: NetRPC_request_def net_cycle_def log_events_def Let_def
        split: net_outcome.splits)

text \<open>
  The answered path.  In the NetRPC variant, a remote call in which no step raises is
  one cycle: a new \<^verbatim>\<open>NetRPC\<close> object, one \<^verbatim>\<open>connect\<close> to the connector's
  server and port, one \<^verbatim>\<open>send\<close> of the tuple
  \<open>(service, method, database, ...)\<close>, one \<^verbatim>\<open>receive\<close>, one
  \<^verbatim>\<open>disconnect\<close>, in this order.  \<^verbatim>\<open>login\<close> uses the service
  \<^verbatim>\<open>common\<close>, \<^verbatim>\<open>execute\<close> and \<^verbatim>\<open>exec_workflow\<close> use \<^verbatim>\<open>object\<close>,
  the report request and each status poll use \<^verbatim>\<open>report\<close>, every poll being a
  cycle of its own.
\<close>

theorem NetRPC_one_cycle_per_answered_call:
  fixes N :: nat
  shows
  "net_cycle c service mname msg =
     [NetNew, NetConnect (server c) (port c), NetSend (PStr service # PStr mname # msg),
      NetReceive, NetDisconnect]
   \<and>
   (U (ncalls w) (PStr ''common'' # PStr ''login'' # [db, user, passwd]) = Reply v
    \<longrightarrow>
    NetRPC_login U c db user passwd w =
      (Inr v, c\<lparr>database := Some db\<rparr>,
       w\<lparr>ncalls := Suc (ncalls w),
          trace := trace w @ net_cycle c ''common'' ''login'' [db, user, passwd]\<rparr>))
   \<and>
   (database c = Some db \<and>
    U (ncalls w)
      (PStr ''object'' # PStr ''execute'' # db # uid # upasswd # osv_name # meth # args) = Reply v
    \<longrightarrow>
    NetRPC_execute U c uid upasswd osv_name meth args w =
      (Inr v,
       w\<lparr>ncalls := Suc (ncalls w),
          trace := trace w @
            net_cycle c ''object'' ''execute'' (db # uid # upasswd # osv_name # meth # args)\<rparr>))
   \<and>
   (database c = Some db \<and>
    U (ncalls w)
      (PStr ''object'' # PStr ''exec_workflow'' # [db, uid, upasswd, osv_name, signal, obj_id])
      = Reply v
    \<longrightarrow>
    NetRPC_exec_workflow U c uid upasswd osv_name signal obj_id w =
      (Inr v,
       w\<lparr>ncalls := Suc (ncalls w),
          trace := trace w @
            net_cycle c ''object'' ''exec_workflow''
              [db, uid, upasswd, osv_name, signal, obj_id]\<rparr>))
   \<and>
   (N \<le> 200 \<and> database c = Some db \<and>
    U (ncalls w)
      (PStr ''report'' # PStr ''report'' #
       [db, uid, upasswd, report_name, PList [obj_id],
        report_data osv_name obj_id report_type, report_context ctx]) = Reply rid \<and>
    (\<forall>i\<le>N. U (ncalls w + 1 + i) (PStr ''report'' # PStr ''report_get'' # [db, uid, upasswd, rid])
              = Reply (P i)) \<and>
    (\<forall>i<N. state_falsy (P i)) \<and> state_truthy (P N)
    \<longrightarrow>
    NetRPC_report U c uid upasswd report_name osv_name obj_id report_type ctx w =
      (Inr (P N),
       w\<lparr>ncalls := ncalls w + N + 2,
          trace := trace w @
            net_cycle c ''report'' ''report''
              [db, uid, upasswd, report_name, PList [obj_id],
               report_data osv_name obj_id report_type, report_context ctx] @
            concat (replicate N
              (net_cycle c ''report'' ''report_get'' [db, uid, upasswd, rid] @ [Sleep 1])) @
            net_cycle c ''report'' ''report_get'' [db, uid, upasswd, rid]\<rparr>))"
proof (intro conjI impI)
  show "net_cycle c service mname msg =
     [NetNew, NetConnect (server c) (port c), NetSend (PStr service # PStr mname # msg),
      NetReceive, NetDisconnect]"
    by (simp add: net_cycle_def)
next
  assume "U (ncalls w) (PStr ''common'' # PStr ''login'' # [db, user, passwd]) = Reply v"
  then have "NetRPC_request U (c\<lparr>database := Some db\<rparr>) ''common'' ''login'' [db, user, passwd] w =
      (Inr v, w\<lparr>ncalls := Suc (ncalls w),
                 trace := trace w @
                   net_cycle (c\<lparr>database := Some db\<rparr>) ''common'' ''login'' [db, user, passwd]\<rparr>)"
    by (rule NetRPC_request_Reply)
  then show "NetRPC_login U c db user passwd w =
      (Inr v, c\<lparr>database := Some db\<rparr>,
       w\<lparr>ncalls := Suc (ncalls w),
          trace := trace w @ net_cycle c ''common'' ''login'' [db, user, passwd]\<rparr>)"
    by (simp add: NetRPC_login_def)
next
  assume h: "database c = Some db \<and>
    U (ncalls w)
      (PStr ''object'' # PStr ''execute'' # db # uid # upasswd # osv_name # meth # args) = Reply v"
  then have "NetRPC_request U c ''object'' ''execute''
               (db # uid # upasswd # osv_name # meth # args) w =
      (Inr v, w\<lparr>ncalls := Suc (ncalls w),
                 trace := trace w @
                   net_cycle c ''object'' ''execute''
                     (db # uid # upasswd # osv_name # meth # args)\<rparr>)"
    by (intro NetRPC_request_Reply) simp
  with h show "NetRPC_execute U c uid upasswd osv_name meth args w =
      (Inr v,
       w\<lparr>ncalls := Suc (ncalls w),
          trace := trace w @
            net_cycle c ''object'' ''execute'' (db # uid # upasswd # osv_name # meth # args)\<rparr>)"
    by (simp add: NetRPC_execute_def)
next
  assume h: "database c = Some db \<and>
    U (ncalls w)
      (PStr ''object'' # PStr ''exec_workflow'' # [db, uid, upasswd, osv_name, signal, obj_id])
      = Reply v"
  then have "NetRPC_request U c ''object'' ''exec_workflow''
               [db, uid, upasswd, osv_name, signal, obj_id] w =
      (Inr v, w\<lparr>ncalls := Suc (ncalls w),
                 trace := trace w @
                   net_cycle c ''object'' ''exec_workflow''
                     [db, uid, upasswd, osv_name, signal, obj_id]\<rparr>)"
    by (intro NetRPC_request_Reply) simp
  with h show "NetRPC_exec_workflow U c uid upasswd osv_name signal obj_id w =
      (Inr v,
       w\<lparr>ncalls := Suc (ncalls w),
          trace := trace w @
            net_cycle c ''object'' ''exec_workflow''
              [db, uid, upasswd, osv_name, signal, obj_id]\<rparr>)"
    by (simp add: NetRPC_exec_workflow_def)
next
  assume h: "N \<le> 200 \<and> database c = Some db \<and>
    U (ncalls w)
      (PStr ''report'' # PStr ''report'' #
       [db, uid, upasswd, report_name, PList [obj_id],
        report_data osv_name obj_id report_type, report_context ctx]) = Reply rid \<and>
    (\<forall>i\<le>N. U (ncalls w + 1 + i) (PStr ''report'' # PStr ''report_get'' # [db, uid, upasswd, rid])
              = Reply (P i)) \<and>
    (\<forall>i<N. state_falsy (P i)) \<and> state_truthy (P N)"
  show "NetRPC_report U c uid upasswd report_name osv_name obj_id report_type ctx w =
      (Inr (P N),
       w\<lparr>ncalls := ncalls w + N + 2,
          trace := trace w @
            net_cycle c ''report'' ''report''
              [db, uid, upasswd, report_name, PList [obj_id],
               report_data osv_name obj_id report_type, report_context ctx] @
            concat (replicate N
              (net_cycle c ''report'' ''report_get'' [db, uid, upasswd, rid] @ [Sleep 1])) @
            net_cycle c ''report'' ''report_get'' [db, uid, upasswd, rid]\<rparr>)"
    by (rule NetRPC_report_ready_after) (use h in auto)
qed

theorem NetRPC_one_cycle_per_answered_call_witness:
  "NetRPC_login (net_script [Reply (PInt 1)]) (fresh ConnectorNetRPC)
      (PStr ''db'') (PStr ''admin'') (PStr ''pw'') world0 =
     (Inr (PInt 1), logged_in ConnectorNetRPC,
      \<lparr>ncalls = 1,
       trace = [NetNew, NetConnect (PStr ''localhost'') (PInt 8069),
                NetSend [PStr ''common'', PStr ''login'', PStr ''db'', PStr ''admin'', PStr ''pw''],
                NetReceive, NetDisconnect]\<rparr>)
   \<and>
   NetRPC_execute (net_script [Reply (PList [PInt 42])]) (logged_in ConnectorNetRPC)
      (PInt 1) (PStr ''pw'') (PStr ''res.partner'') (PStr ''read'') [PInt 42] world0 =
     (Inr (PList [PInt 42]),
      \<lparr>ncalls = 1,
       trace = [NetNew, NetConnect (PStr ''localhost'') (PInt 8069),
                NetSend [PStr ''object'', PStr ''execute'', PStr ''db'', PInt 1, PStr ''pw'',
                         PStr ''res.partner'', PStr ''read'', PInt 42],
                NetReceive, NetDisconnect]\<rparr>)
   \<and>
   NetRPC_exec_workflow (net_script [Reply (PBool True)]) (logged_in ConnectorNetRPC)
      (PInt 1) (PStr ''pw'') (PStr ''sale.order'') (PStr ''order_confirm'') (PInt 4) world0 =
     (Inr (PBool True),
      \<lparr>ncalls = 1,
       trace = [NetNew, NetConnect (PStr ''localhost'') (PInt 8069),
                NetSend [PStr ''object'', PStr ''exec_workflow'', PStr ''db'', PInt 1, PStr ''pw'',
                         PStr ''sale.order'', PStr ''order_confirm'', PInt 4],
                NetReceive, NetDisconnect]\<rparr>)
   \<and>
   NetRPC_report (net_polls (PInt 7) 1) (logged_in ConnectorNetRPC)
      (PInt 1) (PStr ''pw'') (PStr ''sale.order'') (PStr ''sale.order'') (PInt 4) (PStr ''pdf'') PNone
      world0 =
     (Inr ready,
      \<lparr>ncalls = 3,
       trace =
         [NetNew, NetConnect (PStr ''localhost'') (PInt 8069),
          NetSend
            [PStr ''report'', PStr ''report'',
             PStr ''db'', PInt 1, PStr ''pw'', PStr ''sale.order'', PList [PInt 4],
             PDict [(PStr ''model'', PStr ''sale.order''), (PStr ''id'', PInt 4),
                    (PStr ''report_type'', PStr ''pdf'')], PDict []],
          NetReceive, NetDisconnect,
          NetNew, NetConnect (PStr ''localhost'') (PInt 8069),
          NetSend [PStr ''report'', PStr ''report_get'', PStr ''db'', PInt 1, PStr ''pw'', PInt 7],
          NetReceive, NetDisconnect, Sleep 1,
          NetNew, NetConnect (PStr ''localhost'') (PInt 8069),
          NetSend [PStr ''report'', PStr ''report_get'', PStr ''db'', PInt 1, PStr ''pw'', PInt 7],
          NetReceive, NetDisconnect]\<rparr>)"
  using NetRPC_one_cycle_per_answered_call
    [where U = "net_script [Reply (PInt 1)]" and c = "fresh ConnectorNetRPC" and w = world0
       and db = "PStr ''db''" and user = "PStr ''admin''" and passwd = "PStr ''pw''"
       and v = "PInt 1"]
    NetRPC_one_cycle_per_answered_call
    [where U = "net_script [Reply (PList [PInt 42])]" and c = "logged_in ConnectorNetRPC"
       and w = world0 and db = "PStr ''db''" and uid = "PInt 1" and upasswd = "PStr ''pw''"
       and osv_name = "PStr ''res.partner''" and meth = "PStr ''read''" and args = "[PInt 42]"
       and v = "PList [PInt 42]"]
    NetRPC_one_cycle_per_answered_call
    [where U = "net_script [Reply (PBool True)]" and c = "logged_in ConnectorNetRPC"
       and w = world0 and db = "PStr ''db''" and uid = "PInt 1" and upasswd = "PStr ''pw''"
       and osv_name = "PStr ''sale.order''" and signal = "PStr ''order_confirm''"
       and obj_id = "PInt 4" and v = "PBool True"]
    NetRPC_one_cycle_per_answered_call
    [where N = 1 and c = "logged_in ConnectorNetRPC" and db = "PStr ''db''"
       and U = "net_polls (PInt 7) 1" and w = world0 and rid = "PInt 7"
       and P = "\<lambda>i. if i < 1 then pending else ready"
       and uid = "PInt 1" and upasswd = "PStr ''pw''" and report_name = "PStr ''sale.order''"
       and osv_name = "PStr ''sale.order''" and obj_id = "PInt 4" and report_type = "PStr ''pdf''"
       and ctx = PNone]
  by (simp add: net_script_def net_polls_def logged_in_def fresh_def world0_def state_falsy_def
        state_truthy_def pending_def ready_def report_data_def report_context_def net_cycle_def)

text \<open>
  C8.  Every remote call of the NetRPC variant should be one connect, one send, one
  receive and one disconnect, on every exit path.  \<^verbatim>\<open>_request\<close> pairs the
  \<^verbatim>\<open>connect\<close> with a \<^verbatim>\<open>disconnect\<close> on the answered path only
  (\<open>NetRPC_one_cycle_per_answered_call\<close>); it has no handler, so a step that raises
  skips the steps after it (\<open>NetRPC_request_steps\<close>).  When \<^verbatim>\<open>receive\<close>
  raises the error the server reported, \<^verbatim>\<open>execute\<close> ends in
  \<^verbatim>\<open>ExecuteError\<close> after connect, send and receive, and the connection that was
  opened is not closed.
\<close>

theorem NetRPC_execute_fault_leaves_connection_open:
  "NetRPC_execute (net_script [ReceiveRaises (NetRPCError (PStr ''AccessDenied''))])
      (logged_in ConnectorNetRPC)
      (PInt 1) (PStr ''pw'') (PStr ''res.partner'') (PStr ''read'') [PInt 42] world0 =
     (Inl (ExecuteError (UnicodeOf (PStr ''AccessDenied''))),
      \<lparr>ncalls = 1,
       trace = [NetNew, NetConnect (PStr ''localhost'') (PInt 8069),
                NetSend [PStr ''object'', PStr ''execute'', PStr ''db'', PInt 1, PStr ''pw'',
                         PStr ''res.partner'', PStr ''read'', PInt 42],
                NetReceive]\<rparr>)
   \<and>
   NetDisconnect \<notin> set (trace (snd
     (NetRPC_execute (net_script [ReceiveRaises (NetRPCError (PStr ''AccessDenied''))])
        (logged_in ConnectorNetRPC)
        (PInt 1) (PStr ''pw'') (PStr ''res.partner'') (PStr ''read'') [PInt 42] world0)))"
  by (simp add: eval_defs)

section \<open>The database attribute: claims C9 and C10\<close>

text \<open>
  C9 (as amended).  A connector as constructed has no \<^verbatim>\<open>database\<close> attribute.  On
  a connector without it, \<^verbatim>\<open>execute\<close> and \<^verbatim>\<open>report\<close> of both variants and
  \<^verbatim>\<open>exec_workflow\<close> of the NetRPC variant raise \<^verbatim>\<open>AttributeError\<close> before any
  remote call; \<^verbatim>\<open>exec_workflow\<close> of the XML-RPC variant raises
  \<^verbatim>\<open>ExecWorkflowError\<close> with the fixed message, also before any remote call.
\<close>

theorem operations_before_login:
  "(Connector_init v srv prt = Inr c0 \<longrightarrow> database c0 = None)
   \<and>
   (database c = None \<longrightarrow>
      XMLRPC_execute T c uid upasswd osv_name meth args w =
        (Inl (AttributeError ''database''), w)
    \<and> XMLRPC_report T c uid upasswd report_name osv_name obj_id report_type ctx w =
        (Inl (AttributeError ''database''), w)
    \<and> NetRPC_execute U c uid upasswd osv_name meth args w =
        (Inl (AttributeError ''database''), w)
    \<and> NetRPC_exec_workflow U c uid upasswd osv_name signal obj_id w =
        (Inl (AttributeError ''database''), w)
    \<and> NetRPC_report U c uid upasswd report_name osv_name obj_id report_type ctx w =
        (Inl (AttributeError ''database''), w)
    \<and> XMLRPC_exec_workflow T c uid upasswd osv_name signal obj_id w =
        (Inl (ExecWorkflowError (Val (PStr ''Workflow query has failed.''))), w))"
  by (auto simp: XMLRPC_execute_def XMLRPC_report_def NetRPC_execute_def NetRPC_exec_workflow_def
        NetRPC_report_def XMLRPC_exec_workflow_def dest: Connector_init_database)

theorem operations_before_login_witness:
  "ConnectorNetRPC_init (PStr ''localhost'') (PInt 8069) = Inr (fresh ConnectorNetRPC)
   \<and> database (fresh ConnectorNetRPC) = None
   \<and> NetRPC_execute (net_script []) (fresh ConnectorNetRPC)
        (PInt 1) (PStr ''pw'') (PStr ''sale.order'') (PStr ''read'') [PInt 42] world0 =
        (Inl (AttributeError ''database''), world0)
   \<and> NetRPC_exec_workflow (net_script []) (fresh ConnectorNetRPC)
        (PInt 1) (PStr ''pw'') (PStr ''sale.order'') (PStr ''order_confirm'') (PInt 4) world0 =
        (Inl (AttributeError ''database''), world0)
   \<and> XMLRPC_execute (xml_script []) (fresh ConnectorXMLRPC)
        (PInt 1) (PStr ''pw'') (PStr ''sale.order'') (PStr ''read'') [PInt 42] world0 =
        (Inl (AttributeError ''database''), world0)
   \<and> XMLRPC_report (xml_script []) (fresh ConnectorXMLRPC)
        (PInt 1) (PStr ''pw'') (PStr ''sale.order'') (PStr ''sale.order'') (PInt 4) (PStr ''pdf'')
        PNone world0 =
        (Inl (AttributeError ''database''), world0)
   \<and> XMLRPC_exec_workflow (xml_script []) (fresh ConnectorXMLRPC)
        (PInt 1) (PStr ''pw'') (PStr ''sale.order'') (PStr ''order_confirm'') (PInt 4) world0 =
        (Inl (ExecWorkflowError (Val (PStr ''Workflow query has failed.''))), world0)"
proof -
  have i: "Connector_init ConnectorNetRPC (PStr ''localhost'') (PInt 8069) =
             Inr (fresh ConnectorNetRPC)"
    by (simp add: Connector_init_def fresh_def)
  note n = operations_before_login
    [where v = ConnectorNetRPC and srv = "PStr ''localhost''" and prt = "PInt 8069"
       and ?c0.0 = "fresh ConnectorNetRPC" and c = "fresh ConnectorNetRPC"
       and T = "xml_script []" and U = "net_script []" and w = world0
       and uid = "PInt 1" and upasswd = "PStr ''pw''" and osv_name = "PStr ''sale.order''"
       and meth = "PStr ''read''" and args = "[PInt 42]" and signal = "PStr ''order_confirm''"
       and obj_id = "PInt 4" and report_name = "PStr ''sale.order''"
       and report_type = "PStr ''pdf''" and ctx = PNone]
  note x = operations_before_login
    [where v = ConnectorXMLRPC and srv = "PStr ''localhost''" and prt = "PInt 8069"
       and ?c0.0 = "fresh ConnectorXMLRPC" and c = "fresh ConnectorXMLRPC"
       and T = "xml_script []" and U = "net_script []" and w = world0
       and uid = "PInt 1" and upasswd = "PStr ''pw''" and osv_name = "PStr ''sale.order''"
       and meth = "PStr ''read''" and args = "[PInt 42]" and signal = "PStr ''order_confirm''"
       and obj_id = "PInt 4" and report_name = "PStr ''sale.order''"
       and report_type = "PStr ''pdf''" and ctx = PNone]
  have d: "database (fresh ConnectorNetRPC) = None"
    using n [THEN conjunct1] i by simp
  have e: "database (fresh ConnectorXMLRPC) = None"
    by (simp add: fresh_def)
  note n' = n [THEN conjunct2, THEN mp, OF d]
  note x' = x [THEN conjunct2, THEN mp, OF e]
  have "ConnectorNetRPC_init (PStr ''localhost'') (PInt 8069) = Inr (fresh ConnectorNetRPC)"
    using i by (simp add: ConnectorNetRPC_init_def)
  then show ?thesis
    using d n' x' by simp
qed

text \<open>
  C9, as it is written, fails for \<^verbatim>\<open>exec_workflow\<close> of the XML-RPC variant: on a
  connector as constructed it ends in the typed \<^verbatim>\<open>ExecWorkflowError\<close>, not in
  \<^verbatim>\<open>AttributeError\<close>.
\<close>

theorem XMLRPC_exec_workflow_before_login_is_typed:
  "ConnectorXMLRPC_init (PStr ''localhost'') (PInt 8069) = Inr (fresh ConnectorXMLRPC)
   \<and> XMLRPC_exec_workflow (xml_script []) (fresh ConnectorXMLRPC)
        (PInt 1) (PStr ''pw'') (PStr ''sale.order'') (PStr ''order_confirm'') (PInt 4) world0 =
        (Inl (ExecWorkflowError (Val (PStr ''Workflow query has failed.''))), world0)
   \<and> fst (XMLRPC_exec_workflow (xml_script []) (fresh ConnectorXMLRPC)
        (PInt 1) (PStr ''pw'') (PStr ''sale.order'') (PStr ''order_confirm'') (PInt 4) world0)
       \<noteq> Inl (AttributeError ''database'')"
  by (simp add: eval_defs ConnectorXMLRPC_init_def Connector_init_def)

text \<open>
  C10.  In both variants \<^verbatim>\<open>login\<close> leaves the connector with \<^verbatim>\<open>database\<close> set
  to the name it was called with, whatever the remote call does; in particular when
  the call raises and \<^verbatim>\<open>login\<close> ends in \<^verbatim>\<open>LoginError\<close>.  The operations that
  follow send that name: \<^verbatim>\<open>execute\<close>, \<^verbatim>\<open>exec_workflow\<close> and the request of
  \<^verbatim>\<open>report\<close> carry it as the first argument of the remote meth.
\<close>

theorem login_sets_database_even_when_it_fails:
  "(XMLRPC_login T c db user passwd w = (r, c', w') \<longrightarrow> c' = c\<lparr>database := Some db\<rparr>)
   \<and>
   (NetRPC_login U c db user passwd w = (r, c', w') \<longrightarrow> c' = c\<lparr>database := Some db\<rparr>)
   \<and>
   (T (ncalls w) Common ''login'' [db, user, passwd] = Inl (Fault code str)
    \<longrightarrow>
    XMLRPC_login T c db user passwd w =
      (Inl (LoginError (ReprOf code)), c\<lparr>database := Some db\<rparr>,
       w\<lparr>ncalls := Suc (ncalls w),
          trace := trace w @ [XmlCall Common ''login'' [db, user, passwd]]\<rparr>))
   \<and>
   (U (ncalls w) (PStr ''common'' # PStr ''login'' # [db, user, passwd])
      = ReceiveRaises (NetRPCError a)
    \<longrightarrow>
    NetRPC_login U c db user passwd w =
      (Inl (LoginError (UnicodeOf a)), c\<lparr>database := Some db\<rparr>,
       w\<lparr>ncalls := Suc (ncalls w),
          trace := trace w @
            [NetNew, NetConnect (server c) (port c),
             NetSend (PStr ''common'' # PStr ''login'' # [db, user, passwd]), NetReceive]\<rparr>))
   \<and>
   trace (snd (XMLRPC_execute T2 (c\<lparr>database := Some db\<rparr>) uid upasswd osv_name meth args w2))
     = trace w2 @ [XmlCall Object ''execute'' (db # uid # upasswd # osv_name # meth # args)]
   \<and>
   trace (snd (XMLRPC_exec_workflow T2 (c\<lparr>database := Some db\<rparr>) uid upasswd osv_name signal
                 obj_id w2))
     = trace w2 @ [XmlCall Object ''exec_workflow'' [db, uid, upasswd, osv_name, signal, obj_id]]
   \<and>
   (\<exists>rest. trace (snd (XMLRPC_report T2 (c\<lparr>database := Some db\<rparr>) uid upasswd report_name
                         osv_name obj_id report_type ctx w2))
     = trace w2 @
       XmlCall Report ''report''
         [db, uid, upasswd, report_name, PList [obj_id],
          report_data osv_name obj_id report_type, report_context ctx] # rest)
   \<and>
   (U2 (ncalls w2)
      (PStr ''object'' # PStr ''execute'' # db # uid # upasswd # osv_name # meth # args) = Reply v
    \<longrightarrow>
    trace (snd (NetRPC_execute U2 (c\<lparr>database := Some db\<rparr>) uid upasswd osv_name meth args w2))
      = trace w2 @
        net_cycle c ''object'' ''execute'' (db # uid # upasswd # osv_name # meth # args))
   \<and>
   (U2 (ncalls w2)
      (PStr ''object'' # PStr ''exec_workflow'' # [db, uid, upasswd, osv_name, signal, obj_id])
      = Reply v
    \<longrightarrow>
    trace (snd (NetRPC_exec_workflow U2 (c\<lparr>database := Some db\<rparr>) uid upasswd osv_name signal
                  obj_id w2))
      = trace w2 @
        net_cycle c ''object'' ''exec_workflow'' [db, uid, upasswd, osv_name, signal, obj_id])
   \<and>
   (U2 (ncalls w2)
      (PStr ''report'' # PStr ''report'' #
       [db, uid, upasswd, report_name, PList [obj_id],
        report_data osv_name obj_id report_type, report_context ctx]) = Reply rid
    \<longrightarrow>
    (\<exists>rest. trace (snd (NetRPC_report U2 (c\<lparr>database := Some db\<rparr>) uid upasswd report_name
                          osv_name obj_id report_type ctx w2))
      = trace w2 @
        net_cycle c ''report'' ''report''
          [db, uid, upasswd, report_name, PList [obj_id],
           report_data osv_name obj_id report_type, report_context ctx] @ rest))"
proof (intro conjI impI)
  show "c' = c\<lparr>database := Some db\<rparr>" if "XMLRPC_login T c db user passwd w = (r, c', w')"
    using that
    by (auto simp: XMLRPC_login_def Let_def split: prod.splits sum.splits exc.splits)
  show "c' = c\<lparr>database := Some db\<rparr>" if "NetRPC_login U c db user passwd w = (r, c', w')"
    using that
    by (auto simp: NetRPC_login_def Let_def split: prod.splits sum.splits exc.splits)
  show "XMLRPC_login T c db user passwd w =
      (Inl (LoginError (ReprOf code)), c\<lparr>database := Some db\<rparr>,
       w\<lparr>ncalls := Suc (ncalls w),
          trace := trace w @ [XmlCall Common ''login'' [db, user, passwd]]\<rparr>)"
    if "T (ncalls w) Common ''login'' [db, user, passwd] = Inl (Fault code str)"
    using that by (simp add: XMLRPC_login_def xml_call_def)
  show "NetRPC_login U c db user passwd w =
      (Inl (LoginError (UnicodeOf a)), c\<lparr>database := Some db\<rparr>,
       w\<lparr>ncalls := Suc (ncalls w),
          trace := trace w @
            [NetNew, NetConnect (server c) (port c),
             NetSend (PStr ''common'' # PStr ''login'' # [db, user, passwd]), NetReceive]\<rparr>)"
    if "U (ncalls w) (PStr ''common'' # PStr ''login'' # [db, user, passwd])
          = ReceiveRaises (NetRPCError a)"
    using that by (simp add: NetRPC_login_def NetRPC_request_def log_events_def Let_def)
  show "trace (snd (XMLRPC_execute T2 (c\<lparr>database := Some db\<rparr>) uid upasswd osv_name meth
                      args w2))
     = trace w2 @ [XmlCall Object ''execute'' (db # uid # upasswd # osv_name # meth # args)]"
    by (simp add: XMLRPC_execute_def xml_call_def split: sum.splits exc.splits)
  show "trace (snd (XMLRPC_exec_workflow T2 (c\<lparr>database := Some db\<rparr>) uid upasswd osv_name signal
                 obj_id w2))
     = trace w2 @ [XmlCall Object ''exec_workflow'' [db, uid, upasswd, osv_name, signal, obj_id]]"
    by (simp add: XMLRPC_exec_workflow_def xml_call_def split: sum.splits)
  show "\<exists>rest. trace (snd (XMLRPC_report T2 (c\<lparr>database := Some db\<rparr>) uid upasswd report_name
                         osv_name obj_id report_type ctx w2))
     = trace w2 @
       XmlCall Report ''report''
         [db, uid, upasswd, report_name, PList [obj_id],
          report_data osv_name obj_id report_type, report_context ctx] # rest"
    by (rule XMLRPC_report_first_event) simp
  show "trace (snd (NetRPC_execute U2 (c\<lparr>database := Some db\<rparr>) uid upasswd osv_name meth args w2))
      = trace w2 @
        net_cycle c ''object'' ''execute'' (db # uid # upasswd # osv_name # meth # args)"
    if "U2 (ncalls w2)
      (PStr ''object'' # PStr ''execute'' # db # uid # upasswd # osv_name # meth # args) = Reply v"
    using that
    by (simp add: NetRPC_execute_def NetRPC_request_def log_events_def Let_def net_cycle_def)
  show "trace (snd (NetRPC_exec_workflow U2 (c\<lparr>database := Some db\<rparr>) uid upasswd osv_name signal
                  obj_id w2))
      = trace w2 @
        net_cycle c ''object'' ''exec_workflow'' [db, uid, upasswd, osv_name, signal, obj_id]"
    if "U2 (ncalls w2)
      (PStr ''object'' # PStr ''exec_workflow'' # [db, uid, upasswd, osv_name, signal, obj_id])
      = Reply v"
    using that
    by (simp add: NetRPC_exec_workflow_def NetRPC_request_def log_events_def Let_def net_cycle_def)
  show "\<exists>rest. trace (snd (NetRPC_report U2 (c\<lparr>database := Some db\<rparr>) uid upasswd report_name
                          osv_name obj_id report_type ctx w2))
      = trace w2 @
        net_cycle c ''report'' ''report''
          [db, uid, upasswd, report_name, PList [obj_id],
           report_data osv_name obj_id report_type, report_context ctx] @ rest"
    if "U2 (ncalls w2)
      (PStr ''report'' # PStr ''report'' #
       [db, uid, upasswd, report_name, PList [obj_id],
        report_data osv_name obj_id report_type, report_context ctx]) = Reply rid"
    using NetRPC_report_first_cycle
      [where c = "c\<lparr>database := Some db\<rparr>" and db = db and T = U2 and w = w2, OF _ that]
    by simp
qed

theorem login_sets_database_even_when_it_fails_witness:
  "XMLRPC_login (xml_script [Inl (Fault (PStr ''AccessDenied'') (PStr ''Access denied.''))])
      (logged_in ConnectorXMLRPC) (PStr ''other'') (PStr ''admin'') (PStr ''bad'') world0 =
     (Inl (LoginError (ReprOf (PStr ''AccessDenied''))),
      (logged_in ConnectorXMLRPC)\<lparr>database := Some (PStr ''other'')\<rparr>,
      \<lparr>ncalls = 1,
       trace = [XmlCall Common ''login'' [PStr ''other'', PStr ''admin'', PStr ''bad'']]\<rparr>)
   \<and>
   trace (snd (XMLRPC_execute (xml_script [])
      ((logged_in ConnectorXMLRPC)\<lparr>database := Some (PStr ''other'')\<rparr>)
      (PInt 1) (PStr ''pw'') (PStr ''res.partner'') (PStr ''read'') [PInt 42] world0)) =
     [XmlCall Object ''execute''
        [PStr ''other'', PInt 1, PStr ''pw'', PStr ''res.partner'', PStr ''read'', PInt 42]]
   \<and>
   NetRPC_login (net_script [ReceiveRaises (NetRPCError (PStr ''AccessDenied''))])
      (logged_in ConnectorNetRPC) (PStr ''other'') (PStr ''admin'') (PStr ''bad'') world0 =
     (Inl (LoginError (UnicodeOf (PStr ''AccessDenied''))),
      (logged_in ConnectorNetRPC)\<lparr>database := Some (PStr ''other'')\<rparr>,
      \<lparr>ncalls = 1,
       trace = [NetNew, NetConnect (PStr ''localhost'') (PInt 8069),
                NetSend [PStr ''common'', PStr ''login'', PStr ''other'', PStr ''admin'',
                         PStr ''bad''],
                NetReceive]\<rparr>)
   \<and>
   trace (snd (NetRPC_execute (net_script [Reply (PList [])])
      ((logged_in ConnectorNetRPC)\<lparr>database := Some (PStr ''other'')\<rparr>)
      (PInt 1) (PStr ''pw'') (PStr ''res.partner'') (PStr ''read'') [PInt 42] world0)) =
     [NetNew, NetConnect (PStr ''localhost'') (PInt 8069),
      NetSend [PStr ''object'', PStr ''execute'', PStr ''other'', PInt 1, PStr ''pw'',
               PStr ''res.partner'', PStr ''read'', PInt 42],
      NetReceive, NetDisconnect]"
proof -
  note x = login_sets_database_even_when_it_fails
    [where T = "xml_script [Inl (Fault (PStr ''AccessDenied'') (PStr ''Access denied.''))]"
       and c = "logged_in ConnectorXMLRPC" and db = "PStr ''other''" and user = "PStr ''admin''"
       and passwd = "PStr ''bad''" and w = world0
       and code = "PStr ''AccessDenied''" and str = "PStr ''Access denied.''"
       and ?T2.0 = "xml_script []" and ?w2.0 = world0
       and uid = "PInt 1" and upasswd = "PStr ''pw''" and osv_name = "PStr ''res.partner''"
       and meth = "PStr ''read''" and args = "[PInt 42]"]
  note n = login_sets_database_even_when_it_fails
    [where U = "net_script [ReceiveRaises (NetRPCError (PStr ''AccessDenied''))]"
       and c = "logged_in ConnectorNetRPC" and db = "PStr ''other''" and user = "PStr ''admin''"
       and passwd = "PStr ''bad''" and w = world0 and a = "PStr ''AccessDenied''"
       and ?U2.0 = "net_script [Reply (PList [])]" and ?w2.0 = world0 and v = "PList []"
       and uid = "PInt 1" and upasswd = "PStr ''pw''" and osv_name = "PStr ''res.partner''"
       and meth = "PStr ''read''" and args = "[PInt 42]"]
  have x3: "XMLRPC_login (xml_script [Inl (Fault (PStr ''AccessDenied'') (PStr ''Access denied.''))])
      (logged_in ConnectorXMLRPC) (PStr ''other'') (PStr ''admin'') (PStr ''bad'') world0 =
     (Inl (LoginError (ReprOf (PStr ''AccessDenied''))),
      (logged_in ConnectorXMLRPC)\<lparr>database := Some (PStr ''other'')\<rparr>,
      \<lparr>ncalls = 1,
       trace = [XmlCall Common ''login'' [PStr ''other'', PStr ''admin'', PStr ''bad'']]\<rparr>)"
    using x [THEN conjunct2, THEN conjunct2, THEN conjunct1]
    by (simp add: xml_script_def world0_def)
  have x5: "trace (snd (XMLRPC_execute (xml_script [])
      ((logged_in ConnectorXMLRPC)\<lparr>database := Some (PStr ''other'')\<rparr>)
      (PInt 1) (PStr ''pw'') (PStr ''res.partner'') (PStr ''read'') [PInt 42] world0)) =
     [XmlCall Object ''execute''
        [PStr ''other'', PInt 1, PStr ''pw'', PStr ''res.partner'', PStr ''read'', PInt 42]]"
    using x [THEN conjunct2, THEN conjunct2, THEN conjunct2, THEN conjunct2, THEN conjunct1]
    by (simp add: world0_def)
  have n4: "NetRPC_login (net_script [ReceiveRaises (NetRPCError (PStr ''AccessDenied''))])
      (logged_in ConnectorNetRPC) (PStr ''other'') (PStr ''admin'') (PStr ''bad'') world0 =
     (Inl (LoginError (UnicodeOf (PStr ''AccessDenied''))),
      (logged_in ConnectorNetRPC)\<lparr>database := Some (PStr ''other'')\<rparr>,
      \<lparr>ncalls = 1,
       trace = [NetNew, NetConnect (PStr ''localhost'') (PInt 8069),
                NetSend [PStr ''common'', PStr ''login'', PStr ''other'', PStr ''admin'',
                         PStr ''bad''],
                NetReceive]\<rparr>)"
    using n [THEN conjunct2, THEN conjunct2, THEN conjunct2, THEN conjunct1]
    by (simp add: net_script_def world0_def logged_in_def fresh_def)
  have n8: "trace (snd (NetRPC_execute (net_script [Reply (PList [])])
      ((logged_in ConnectorNetRPC)\<lparr>database := Some (PStr ''other'')\<rparr>)
      (PInt 1) (PStr ''pw'') (PStr ''res.partner'') (PStr ''read'') [PInt 42] world0)) =
     [NetNew, NetConnect (PStr ''localhost'') (PInt 8069),
      NetSend [PStr ''object'', PStr ''execute'', PStr ''other'', PInt 1, PStr ''pw'',
               PStr ''res.partner'', PStr ''read'', PInt 42],
      NetReceive, NetDisconnect]"
    using n [THEN conjunct2, THEN conjunct2, THEN conjunct2, THEN conjunct2, THEN conjunct2,
             THEN conjunct2, THEN conjunct2, THEN conjunct1]
    by (simp add: net_script_def world0_def logged_in_def fresh_def net_cycle_def)
  show ?thesis
    by (intro conjI x3 x5 n4 n8)
qed

end
